theory Spec2Isabelle
  imports Complex_Main "HOL-Library.Word"
begin

section \<open>Strings, bytes and the file system\<close>

text \<open>
  The development embeds \<^verbatim>\<open>src/infrastructure/web/middlewares/FileUploadMiddleware.ts\<close>.
  JavaScript strings are modelled as HOL strings: the multipart parser delivers header
  values (file names, MIME types) in the Latin-1 range, one character per byte, so
  \<open>length\<close> is both \<^verbatim>\<open>String.prototype.length\<close> and the number of bytes.
  A \<^verbatim>\<open>Buffer\<close> is a list of bytes. The file system is a partial map from a path to the
  content of the regular file stored there; directories are not modelled
  (\<^verbatim>\<open>initializeDirectories\<close> creates all of them before any upload is handled).
\<close>

type_synonym byte = "8 word"

type_synonym fsys = "string \<rightharpoonup> byte list"

text \<open>
  \<^verbatim>\<open>toLowerCase\<close> on the Latin-1 range: the upper-case letters are \<^verbatim>\<open>A\<close> to \<^verbatim>\<open>Z\<close>
  (65 to 90) and 192 to 222 without the multiplication sign 215; the lower-case letter
  is 32 above, which on these ranges is the same character with bit 5 set.
\<close>

definition toLowerCase_char :: "char \<Rightarrow> char" where
  "toLowerCase_char c =
     (let n = (of_char c :: nat)
      in if (65 \<le> n \<and> n \<le> 90) \<or> (192 \<le> n \<and> n \<le> 222 \<and> n \<noteq> 215)
         then Char (digit0 c) (digit1 c) (digit2 c) (digit3 c) (digit4 c) True (digit6 c) (digit7 c)
         else c)"

definition toLowerCase :: "string \<Rightarrow> string" where
  "toLowerCase s = map toLowerCase_char s"

text \<open>\<^verbatim>\<open>s.split(sep)\<close> for a one-character separator: never the empty array.\<close>

fun split_on :: "char \<Rightarrow> string \<Rightarrow> string list" where
  "split_on sep [] = [[]]"
| "split_on sep (c # cs) =
     (if c = sep then [] # split_on sep cs
      else (case split_on sep cs of
              [] \<Rightarrow> [[c]]
            | p # ps \<Rightarrow> (c # p) # ps))"

text \<open>\<^verbatim>\<open>s.startsWith(p)\<close> and \<^verbatim>\<open>s.includes(p)\<close>, also \<^verbatim>\<open>buffer.indexOf(p) !== -1\<close>.\<close>

definition startsWith :: "'a list \<Rightarrow> 'a list \<Rightarrow> bool" where
  "startsWith s p = (take (length p) s = p)"

fun includes_sub :: "'a list \<Rightarrow> 'a list \<Rightarrow> bool" where
  "includes_sub [] p = (p = [])"
| "includes_sub (c # cs) p = (startsWith (c # cs) p \<or> includes_sub cs p)"

text \<open>
  \<^verbatim>\<open>path.extname\<close> of Node.js (POSIX flavour): the part of the last path segment from
  its last dot on, empty when the segment has no dot, starts with its only dot, or is
  \<^verbatim>\<open>..\<close>. Trailing slashes are ignored.
\<close>

definition last_segment :: "string \<Rightarrow> string" where
  "last_segment p =
     rev (takeWhile (\<lambda>c. c \<noteq> CHR ''/'') (dropWhile (\<lambda>c. c = CHR ''/'') (rev p)))"

definition extname :: "string \<Rightarrow> string" where
  "extname p =
     (let b = last_segment p;
          e = rev (takeWhile (\<lambda>c. c \<noteq> CHR ''.'') (rev b))
      in if CHR ''.'' \<notin> set b then []
         else if length b = Suc (length e) then []
         else if b = ''..'' then []
         else CHR ''.'' # e)"

text \<open>\<^verbatim>\<open>path.join(a, b)\<close> on segments that need no normalisation.\<close>

definition path_join :: "string \<Rightarrow> string \<Rightarrow> string" where
  "path_join a b = a @ ''/'' @ b"

definition uploadDir :: string where
  "uploadDir = ''uploads''"

definition tempDir :: string where
  "tempDir = path_join uploadDir ''temp''"

section \<open>Category policy table\<close>

record FileTypeConfig =
  extensions :: "string list"
  mimeTypes :: "string list"
  maxSize :: nat
  description :: string

definition resumeConfig :: FileTypeConfig where
  "resumeConfig =
     \<lparr>extensions = [''.pdf'', ''.doc'', ''.docx''],
      mimeTypes = [''application/pdf'', ''application/msword'',
        ''application/vnd.openxmlformats-officedocument.wordprocessingml.document''],
      maxSize = 5 * 1024 * 1024,
      description = ''CV/Resume (PDF, DOC, DOCX)''\<rparr>"

definition imageConfig :: FileTypeConfig where
  "imageConfig =
     \<lparr>extensions = [''.jpg'', ''.jpeg'', ''.png'', ''.gif'', ''.webp''],
      mimeTypes = [''image/jpeg'', ''image/png'', ''image/gif'', ''image/webp''],
      maxSize = 2 * 1024 * 1024,
      description = ''Imagen (JPG, PNG, GIF, WEBP)''\<rparr>"

definition audioConfig :: FileTypeConfig where
  "audioConfig =
     \<lparr>extensions = [''.mp3'', ''.wav'', ''.ogg'', ''.webm'', ''.m4a''],
      mimeTypes = [''audio/mpeg'', ''audio/wav'', ''audio/ogg'', ''audio/webm'', ''audio/mp4''],
      maxSize = 10 * 1024 * 1024,
      description = ''Audio (MP3, WAV, OGG, WEBM, M4A)''\<rparr>"

definition documentConfig :: FileTypeConfig where
  "documentConfig =
     \<lparr>extensions = [''.pdf'', ''.doc'', ''.docx'', ''.txt'', ''.rtf''],
      mimeTypes = [''application/pdf'', ''application/msword'',
        ''application/vnd.openxmlformats-officedocument.wordprocessingml.document'',
        ''text/plain'', ''application/rtf''],
      maxSize = 10 * 1024 * 1024,
      description = ''Documento (PDF, DOC, DOCX, TXT, RTF)''\<rparr>"

definition FILE_CONFIGS :: "(string \<times> FileTypeConfig) list" where
  "FILE_CONFIGS =
     [(''resume'', resumeConfig), (''image'', imageConfig),
      (''audio'', audioConfig), (''document'', documentConfig)]"

section \<open>Uploaded files\<close>

text \<open>
  \<^verbatim>\<open>Express.Multer.File\<close>, with the two properties the middleware attaches dynamically
  (\<^verbatim>\<open>hash\<close>, \<^verbatim>\<open>finalPath\<close>). A property that is \<^verbatim>\<open>undefined\<close> is \<open>None\<close>: the
  multipart library calls the file filter before it has consumed the stream, when
  \<^verbatim>\<open>size\<close> is not yet set (field \<open>fsize\<close>; \<open>path\<close> and \<open>filename\<close> are then empty strings).
\<close>

record multer_file =
  fieldname :: string
  originalname :: string
  mimetype :: string
  fsize :: "nat option"
  path :: string
  filename :: string
  hash :: "string option"
  finalPath :: "string option"

section \<open>File filter and filename checks\<close>

datatype sec_error = DangerousChars | NameTooLong | ExecutableExtension | EmptyFile

datatype filter_error =
    ExtensionNotAllowed
  | MimeNotAllowed
  | SecurityCheckFailed "sec_error list"
  | FieldNotAllowed string
  | ConfigNotFound string

record security_result =
  isValid :: bool
  errors :: "sec_error list"

text \<open>The character class \<^verbatim>\<open>[<>:"/\\|?*\x00-\x1f]\<close>.\<close>

definition dangerousChars :: "char \<Rightarrow> bool" where
  "dangerousChars c =
     (c \<in> set [CHR ''<'', CHR ''>'', CHR '':'', CHR 0x22, CHR ''/'', CHR 0x5C,
                CHR ''|'', CHR ''?'', CHR ''*'']
      \<or> (of_char c :: nat) \<le> 0x1f)"

definition suspiciousExtensions :: "string list" where
  "suspiciousExtensions = [''.exe'', ''.bat'', ''.cmd'', ''.scr'', ''.pif'', ''.com'']"

definition performSecurityChecks :: "multer_file \<Rightarrow> security_result" where
  "performSecurityChecks f =
     (let filename = originalname f;
          e1 = (if list_ex dangerousChars filename then [DangerousChars] else []);
          e2 = (if length filename > 255 then [NameTooLong] else []);
          parts = split_on CHR ''.'' filename;
          e3 = (if length parts > 2
                   \<and> list_ex (\<lambda>part. (CHR ''.'' # toLowerCase part) \<in> set suspiciousExtensions) parts
                then [ExecutableExtension] else []);
          e4 = (if fsize f = Some 0 then [EmptyFile] else []);
          es = e1 @ e2 @ e3 @ e4
      in \<lparr>isValid = (es = []), errors = es\<rparr>)"

definition createFileFilter :: "FileTypeConfig \<Rightarrow> multer_file \<Rightarrow> filter_error + bool" where
  "createFileFilter allowedConfig f =
     (let extension = toLowerCase (extname (originalname f));
          mt = toLowerCase (mimetype f)
      in if extension \<notin> set (extensions allowedConfig) then Inl ExtensionNotAllowed
         else if mt \<notin> set (mimeTypes allowedConfig) then Inl MimeNotAllowed
         else (let securityCheck = performSecurityChecks f
               in if \<not> isValid securityCheck then Inl (SecurityCheckFailed (errors securityCheck))
                  else Inr True))"

section \<open>Content inspection\<close>

text \<open>
  \<^verbatim>\<open>Buffer.alloc(n)\<close> followed by \<^verbatim>\<open>fs.readSync(fd, buffer, 0, n, 0)\<close>: the first \<open>n\<close>
  bytes of the file, padded with zeros when the file is shorter. Opening a path that
  holds no file throws.
\<close>

definition readBuffer :: "nat \<Rightarrow> byte list \<Rightarrow> byte list" where
  "readBuffer n bytes = take n bytes @ replicate (n - length bytes) 0"

definition magicBytes :: "(string \<times> byte list list) list" where
  "magicBytes =
     [(''application/pdf'', [[0x25, 0x50, 0x44, 0x46]]),
      (''image/jpeg'', [[0xFF, 0xD8, 0xFF, 0xE0], [0xFF, 0xD8, 0xFF, 0xE1]]),
      (''image/png'', [[0x89, 0x50, 0x4E, 0x47, 0x0D, 0x0A, 0x1A, 0x0A]]),
      (''audio/mpeg'', [[0xFF, 0xFB], [0x49, 0x44, 0x33]]),
      (''audio/wav'', [[0x52, 0x49, 0x46, 0x46]])]"

text \<open>
  \<^verbatim>\<open>magicBytes[file.mimetype]\<close> is a property read on an object literal: a key that is
  not an own property resolves through \<^verbatim>\<open>Object.prototype\<close>. For the names below the
  read yields a value that is truthy and has no \<^verbatim>\<open>some\<close> method, so the call throws a
  \<^verbatim>\<open>TypeError\<close> inside the \<^verbatim>\<open>try\<close> block.
\<close>

definition Object_prototype_keys :: "string list" where
  "Object_prototype_keys =
     [''constructor'', ''__proto__'', ''hasOwnProperty'', ''isPrototypeOf'',
      ''propertyIsEnumerable'', ''toLocaleString'', ''toString'', ''valueOf'',
      ''__defineGetter__'', ''__defineSetter__'', ''__lookupGetter__'', ''__lookupSetter__'']"

datatype 'a property = Undefined | Own 'a | Inherited

definition magicBytes_get :: "string \<Rightarrow> byte list list property" where
  "magicBytes_get key =
     (case map_of magicBytes key of
        Some sigs \<Rightarrow> Own sigs
      | None \<Rightarrow> if key \<in> set Object_prototype_keys then Inherited else Undefined)"

definition validateFileContent :: "fsys \<Rightarrow> multer_file \<Rightarrow> bool" where
  "validateFileContent fs f =
     (case fs (path f) of
        None \<Rightarrow> False
      | Some bytes \<Rightarrow>
          (let buffer = readBuffer 32 bytes
           in case magicBytes_get (mimetype f) of
                Undefined \<Rightarrow> True
              | Inherited \<Rightarrow> False
              | Own expectedMagicBytes \<Rightarrow>
                  list_ex (\<lambda>magic. take (length magic) buffer = magic) expectedMagicBytes))"

text \<open>The EICAR test string and the two letters \<^verbatim>\<open>MZ\<close>, as \<^verbatim>\<open>Buffer.from\<close> encodes them.\<close>

definition maliciousPatterns :: "byte list list" where
  "maliciousPatterns =
     [[0x58, 0x35, 0x4F, 0x21, 0x50, 0x25, 0x40, 0x41, 0x50, 0x5B, 0x34, 0x5C, 0x50, 0x5A,
       0x58, 0x35, 0x34, 0x28, 0x50, 0x5E, 0x29, 0x37, 0x43, 0x43, 0x29, 0x37, 0x7D, 0x24,
       0x45, 0x49, 0x43, 0x41, 0x52],
      [0x4D, 0x5A]]"

definition performAntivirusScan :: "fsys \<Rightarrow> multer_file \<Rightarrow> bool" where
  "performAntivirusScan fs f =
     (case fs (path f) of
        None \<Rightarrow> False
      | Some bytes \<Rightarrow>
          (let buffer = readBuffer 1024 bytes;
               hasMaliciousPattern = list_ex (\<lambda>pattern. includes_sub buffer pattern) maliciousPatterns
           in \<not> hasMaliciousPattern))"

section \<open>Processing of stored files\<close>

text \<open>
  The state the middleware acts on: the disk, and the paths whose content
  \<^verbatim>\<open>generateFileHash\<close> has digested so far, oldest first. The digest itself
  (\<^verbatim>\<open>crypto.createHash('sha256')\<close>, hex encoded) is a parameter \<open>H\<close> of the model.
\<close>

record world =
  disk :: fsys
  hashed :: "string list"

datatype multer_code =
    LIMIT_PART_COUNT
  | LIMIT_FILE_SIZE
  | LIMIT_FILE_COUNT
  | LIMIT_FIELD_KEY
  | LIMIT_FIELD_VALUE
  | LIMIT_FIELD_COUNT
  | LIMIT_UNEXPECTED_FILE

text \<open>The error the multipart library passes to the callback of \<^verbatim>\<open>wrapMulter\<close>.\<close>

datatype upload_error = MulterError multer_code | FilterError filter_error

text \<open>
  What the middleware passes to \<^verbatim>\<open>next\<close>: the \<^verbatim>\<open>ValidationException\<close>s, one constructor
  per message, and \<open>IOError\<close> for an exception of \<^verbatim>\<open>fs\<close> that is passed on as it is.
\<close>

datatype app_error =
    FileTooLarge
  | TooManyFiles
  | FieldNameTooLong
  | FieldValueTooLong
  | TooManyFields
  | UnexpectedFileField
  | UploadError
  | UploadFailed filter_error
  | TotalSizeExceeded
  | InvalidContent string
  | IOError

datatype middleware_result = Next | NextError app_error | Respond nat

definition generateFileHash ::
  "(byte list \<Rightarrow> string) \<Rightarrow> string \<Rightarrow> world \<Rightarrow> (app_error + string) \<times> world" where
  "generateFileHash H p w =
     (case disk w p of
        None \<Rightarrow> (Inl IOError, w)
      | Some bytes \<Rightarrow> (Inr (H bytes), w\<lparr>hashed := hashed w @ [p]\<rparr>))"

definition final_subdir :: "string \<Rightarrow> string" where
  "final_subdir mt =
     (if startsWith mt ''image/'' then ''images''
      else if startsWith mt ''audio/'' then ''audio''
      else if mt = ''application/pdf'' \<or> includes_sub mt ''word'' then ''resumes''
      else ''documents'')"

definition final_location :: "multer_file \<Rightarrow> string" where
  "final_location f =
     (let h = (case hash f of None \<Rightarrow> ''undefined'' | Some d \<Rightarrow> d);
          extension = extname (originalname f);
          finalFilename = h @ extension;
          finalDir = path_join uploadDir (final_subdir (mimetype f))
      in path_join finalDir finalFilename)"

text \<open>
  \<^verbatim>\<open>fs.renameSync\<close> and \<^verbatim>\<open>fs.unlinkSync\<close> throw when the temporary file is not there.
\<close>

definition moveFileToFinalLocation ::
  "multer_file \<Rightarrow> world \<Rightarrow> (app_error + string) \<times> world" where
  "moveFileToFinalLocation f w =
     (let final = final_location f
      in if disk w final = None
         then (case disk w (path f) of
                 None \<Rightarrow> (Inl IOError, w)
               | Some bytes \<Rightarrow>
                   (Inr final, w\<lparr>disk := ((disk w)(path f := None))(final \<mapsto> bytes)\<rparr>))
         else (case disk w (path f) of
                 None \<Rightarrow> (Inl IOError, w)
               | Some bytes \<Rightarrow> (Inr final, w\<lparr>disk := (disk w)(path f := None)\<rparr>)))"

fun processUploadedFiles ::
  "(byte list \<Rightarrow> string) \<Rightarrow> multer_file list \<Rightarrow> world \<Rightarrow> (app_error + multer_file list) \<times> world" where
  "processUploadedFiles H [] w = (Inr [], w)"
| "processUploadedFiles H (f # rest) w =
     (case generateFileHash H (path f) w of
        (Inl e, w1) \<Rightarrow> (Inl e, w1)
      | (Inr h, w1) \<Rightarrow>
          (let f1 = f\<lparr>hash := Some h\<rparr>
           in if \<not> validateFileContent (disk w1) f1
              then (Inl (InvalidContent (originalname f1)), w1)
              else (case moveFileToFinalLocation f1 w1 of
                      (Inl e, w2) \<Rightarrow> (Inl e, w2)
                    | (Inr newPath, w2) \<Rightarrow>
                        (case processUploadedFiles H rest w2 of
                           (Inl e, w3) \<Rightarrow> (Inl e, w3)
                         | (Inr rest', w3) \<Rightarrow>
                             (Inr (f1\<lparr>finalPath := Some newPath\<rparr> # rest'), w3)))))"

section \<open>The request and the wrapper around the multipart library\<close>

record FileMetadata =
  md_originalName :: string
  md_filename :: string
  md_path :: string
  md_size :: "nat option"
  md_mimetype :: string
  md_extension :: string
  md_hash :: string
  md_isValid :: bool

text \<open>
  \<^verbatim>\<open>req.file\<close>, \<^verbatim>\<open>req.files\<close> and \<^verbatim>\<open>req.fileMetadata\<close>; \<^verbatim>\<open>req.files\<close> is an array or an
  object from field name to array, kept here in the order \<^verbatim>\<open>Object.values\<close> enumerates it.
\<close>

datatype file_collection =
    FileArray "multer_file list"
  | FileObject "(string \<times> multer_file list) list"

record request =
  req_file :: "multer_file option"
  req_files :: "file_collection option"
  fileMetadata :: "FileMetadata list option"

definition getAllFiles :: "request \<Rightarrow> multer_file list" where
  "getAllFiles req =
     (case req_file req of None \<Rightarrow> [] | Some f \<Rightarrow> [f]) @
     (case req_files req of
        None \<Rightarrow> []
      | Some (FileArray fl) \<Rightarrow> fl
      | Some (FileObject d) \<Rightarrow> concat (map snd d))"

text \<open>A sum of sizes is \<open>None\<close> when it is \<^verbatim>\<open>NaN\<close>, which adding \<^verbatim>\<open>undefined\<close> gives.\<close>

definition add_size :: "nat option \<Rightarrow> multer_file \<Rightarrow> nat option" where
  "add_size acc f =
     (case acc of
        None \<Rightarrow> None
      | Some a \<Rightarrow> (case fsize f of None \<Rightarrow> None | Some b \<Rightarrow> Some (a + b)))"

definition add_total :: "nat option \<Rightarrow> nat option \<Rightarrow> nat option" where
  "add_total acc s =
     (case acc of
        None \<Rightarrow> None
      | Some a \<Rightarrow> (case s of None \<Rightarrow> None | Some b \<Rightarrow> Some (a + b)))"

definition calculateTotalSize :: "file_collection \<Rightarrow> nat option" where
  "calculateTotalSize files =
     (case files of
        FileArray fl \<Rightarrow> foldl add_size (Some 0) fl
      | FileObject d \<Rightarrow>
          foldl (\<lambda>totalSize fileArray. add_total totalSize (foldl add_size (Some 0) fileArray))
            (Some 0) (map snd d))"

definition unlink_if_exists :: "world \<Rightarrow> multer_file \<Rightarrow> world" where
  "unlink_if_exists w f =
     (if disk w (path f) \<noteq> None then w\<lparr>disk := (disk w)(path f := None)\<rparr> else w)"

definition cleanupTempFiles :: "request \<Rightarrow> world \<Rightarrow> world" where
  "cleanupTempFiles req w = foldl unlink_if_exists w (getAllFiles req)"

definition extractFileMetadata :: "multer_file list \<Rightarrow> FileMetadata list" where
  "extractFileMetadata files =
     map (\<lambda>f. \<lparr>md_originalName = originalname f,
               md_filename = filename f,
               md_path = (case finalPath f of None \<Rightarrow> path f
                          | Some fp \<Rightarrow> if fp = [] then path f else fp),
               md_size = fsize f,
               md_mimetype = mimetype f,
               md_extension = toLowerCase (extname (originalname f)),
               md_hash = (case hash f of None \<Rightarrow> [] | Some h \<Rightarrow> h),
               md_isValid = True\<rparr>) files"

definition handleMulterError :: "multer_code \<Rightarrow> app_error" where
  "handleMulterError code =
     (case code of
        LIMIT_FILE_SIZE \<Rightarrow> FileTooLarge
      | LIMIT_FILE_COUNT \<Rightarrow> TooManyFiles
      | LIMIT_FIELD_KEY \<Rightarrow> FieldNameTooLong
      | LIMIT_FIELD_VALUE \<Rightarrow> FieldValueTooLong
      | LIMIT_FIELD_COUNT \<Rightarrow> TooManyFields
      | LIMIT_UNEXPECTED_FILE \<Rightarrow> UnexpectedFileField
      | LIMIT_PART_COUNT \<Rightarrow> UploadError)"

text \<open>
  The callback \<^verbatim>\<open>wrapMulter\<close> hands to the multipart library, called with the library's
  error (if any) once \<^verbatim>\<open>req.file\<close>/\<^verbatim>\<open>req.files\<close> are populated. \<open>maxTotalSize\<close> is the
  optional third parameter; the guard \<^verbatim>\<open>maxTotalSize && req.files\<close> is false for
  \<^verbatim>\<open>undefined\<close> and for \<open>0\<close>, and \<open>total_size_exceeded\<close> is that guard together with
  the comparison \<^verbatim>\<open>totalSize > maxTotalSize\<close> behind it. The properties \<^verbatim>\<open>hash\<close> and \<^verbatim>\<open>finalPath\<close> that
  \<^verbatim>\<open>processUploadedFiles\<close> attaches to the file objects are read by \<^verbatim>\<open>extractFileMetadata\<close>
  only, so the annotated files are passed to it and the request keeps the files as the
  library stored them.
\<close>

definition total_size_exceeded :: "nat option \<Rightarrow> request \<Rightarrow> bool" where
  "total_size_exceeded maxTotalSize req =
     (case maxTotalSize of
        None \<Rightarrow> False
      | Some m \<Rightarrow>
          m \<noteq> 0 \<and>
          (case req_files req of
             None \<Rightarrow> False
           | Some files \<Rightarrow>
               (case calculateTotalSize files of
                  None \<Rightarrow> False
                | Some totalSize \<Rightarrow> totalSize > m)))"

definition wrapMulter ::
  "(byte list \<Rightarrow> string) \<Rightarrow> nat option \<Rightarrow> upload_error option \<Rightarrow> request \<Rightarrow> world
     \<Rightarrow> middleware_result \<times> request \<times> world" where
  "wrapMulter H maxTotalSize error req w =
     (case error of
        Some (MulterError code) \<Rightarrow> (NextError (handleMulterError code), req, cleanupTempFiles req w)
      | Some (FilterError e) \<Rightarrow> (NextError (UploadFailed e), req, cleanupTempFiles req w)
      | None \<Rightarrow>
          if total_size_exceeded maxTotalSize req
          then (NextError TotalSizeExceeded, req, cleanupTempFiles req w)
          else (case processUploadedFiles H (getAllFiles req) w of
                  (Inl processingError, w1) \<Rightarrow>
                    (NextError processingError, req, cleanupTempFiles req w1)
                | (Inr files, w1) \<Rightarrow>
                    (Next, req\<lparr>fileMetadata := Some (extractFileMetadata files)\<rparr>, w1)))"

section \<open>Antivirus middleware\<close>

fun scan_files :: "multer_file list \<Rightarrow> fsys \<Rightarrow> bool" where
  "scan_files [] d = True"
| "scan_files (f # rest) d = (if \<not> performAntivirusScan d f then False else scan_files rest d)"

definition antivirusScan :: "request \<Rightarrow> world \<Rightarrow> middleware_result \<times> world" where
  "antivirusScan req w =
     (if scan_files (getAllFiles req) (disk w) then (Next, w)
      else (Respond 400, cleanupTempFiles req w))"

section \<open>The multipart library and the upload middlewares\<close>

text \<open>
  The middlewares configure the multipart library (multer with disk storage) and wrap its
  handler. The library is not part of the repository; \<open>multer_run\<close> states the part of its
  documented behaviour that the middlewares rely on. For every file part of the request,
  in order: more files than \<^verbatim>\<open>limits.files\<close> abort with \<^verbatim>\<open>LIMIT_FILE_COUNT\<close>; a field that
  expects no (more) files aborts with \<^verbatim>\<open>LIMIT_UNEXPECTED_FILE\<close>; the file filter is called
  with the file's field name, original name and MIME type only (its \<^verbatim>\<open>size\<close> is not set
  before the storage engine has written it); a stream longer than \<^verbatim>\<open>limits.fileSize\<close>
  aborts with \<^verbatim>\<open>LIMIT_FILE_SIZE\<close>; otherwise the storage engine writes the file under the
  name \<^verbatim>\<open>createStorage\<close> chooses and the file object gets its \<^verbatim>\<open>size\<close>, \<^verbatim>\<open>filename\<close> and
  \<^verbatim>\<open>path\<close>. On abort the library removes the files it has stored for the request.
  A part carries the \<^verbatim>\<open>timestamp_random\<close> prefix that \<^verbatim>\<open>createStorage\<close> draws for it.
\<close>

record part =
  part_fieldname :: string
  part_originalname :: string
  part_mimetype :: string
  part_content :: "byte list"
  part_stamp :: string

record multer_options =
  storage_subdir :: string
  fileFilter :: "multer_file \<Rightarrow> filter_error + bool"
  limit_fileSize :: nat
  limit_files :: nat

definition createStorage_filename :: "part \<Rightarrow> string" where
  "createStorage_filename p =
     (let extension = toLowerCase (extname (part_originalname p))
      in part_stamp p @ extension)"

definition createStorage_destination :: "string \<Rightarrow> string" where
  "createStorage_destination subdir = path_join uploadDir subdir"

text \<open>The file object as the file filter sees it, and as the storage engine completes it.\<close>

definition incoming_file :: "part \<Rightarrow> multer_file" where
  "incoming_file p =
     \<lparr>fieldname = part_fieldname p, originalname = part_originalname p,
      mimetype = part_mimetype p, fsize = None, path = [], filename = [],
      hash = None, finalPath = None\<rparr>"

definition stored_file :: "string \<Rightarrow> part \<Rightarrow> multer_file" where
  "stored_file subdir p =
     (let name = createStorage_filename p;
          dest = path_join (createStorage_destination subdir) name
      in (incoming_file p)\<lparr>fsize := Some (length (part_content p)), path := dest,
                             filename := name\<rparr>)"

definition multer_abort ::
  "upload_error \<Rightarrow> multer_file list \<Rightarrow> world \<Rightarrow> upload_error option \<times> multer_file list \<times> world" where
  "multer_abort e stored w = (Some e, stored, foldl unlink_if_exists w stored)"

fun multer_run ::
  "multer_options \<Rightarrow> part list \<Rightarrow> (string \<times> nat) list \<Rightarrow> multer_file list \<Rightarrow> world
     \<Rightarrow> upload_error option \<times> multer_file list \<times> world" where
  "multer_run opts [] filesLeft stored w = (None, stored, w)"
| "multer_run opts (p # ps) filesLeft stored w =
     (if length stored \<ge> limit_files opts then multer_abort (MulterError LIMIT_FILE_COUNT) stored w
      else if (case map_of filesLeft (part_fieldname p) of None \<Rightarrow> True | Some n \<Rightarrow> n = 0)
      then multer_abort (MulterError LIMIT_UNEXPECTED_FILE) stored w
      else
        (let filesLeft' = map (\<lambda>(k, n). if k = part_fieldname p then (k, n - 1) else (k, n)) filesLeft
         in case fileFilter opts (incoming_file p) of
              Inl e \<Rightarrow> multer_abort (FilterError e) stored w
            | Inr False \<Rightarrow> multer_run opts ps filesLeft' stored w
            | Inr True \<Rightarrow>
                if length (part_content p) > limit_fileSize opts
                then multer_abort (MulterError LIMIT_FILE_SIZE) stored w
                else
                  (let f = stored_file (storage_subdir opts) p
                   in multer_run opts ps filesLeft' (stored @ [f])
                        (w\<lparr>disk := (disk w)(path f \<mapsto> part_content p)\<rparr>))))"

text \<open>\<^verbatim>\<open>.single(field)\<close> sets \<^verbatim>\<open>req.file\<close>; \<^verbatim>\<open>.fields(...)\<close> sets \<^verbatim>\<open>req.files\<close> to an object.\<close>

definition single_request :: "multer_file list \<Rightarrow> request" where
  "single_request stored =
     \<lparr>req_file = (case stored of [] \<Rightarrow> None | f # _ \<Rightarrow> Some f), req_files = None,
      fileMetadata = None\<rparr>"

fun insert_file :: "multer_file \<Rightarrow> (string \<times> multer_file list) list \<Rightarrow> (string \<times> multer_file list) list" where
  "insert_file f [] = [(fieldname f, [f])]"
| "insert_file f ((k, fl) # d) =
     (if k = fieldname f then (k, fl @ [f]) # d else (k, fl) # insert_file f d)"

definition fields_request :: "multer_file list \<Rightarrow> request" where
  "fields_request stored =
     \<lparr>req_file = None, req_files = Some (FileObject (foldl (\<lambda>d f. insert_file f d) [] stored)),
      fileMetadata = None\<rparr>"

definition upload_single ::
  "(byte list \<Rightarrow> string) \<Rightarrow> string \<Rightarrow> string \<Rightarrow> FileTypeConfig \<Rightarrow> part list \<Rightarrow> world
     \<Rightarrow> middleware_result \<times> request \<times> world" where
  "upload_single H field subdir config parts w =
     (let opts = \<lparr>storage_subdir = subdir, fileFilter = createFileFilter config,
                  limit_fileSize = maxSize config, limit_files = 1\<rparr>
      in case multer_run opts parts [(field, 1)] [] w of
           (error, stored, w1) \<Rightarrow> wrapMulter H None error (single_request stored) w1)"

definition uploadResume ::
  "(byte list \<Rightarrow> string) \<Rightarrow> part list \<Rightarrow> world \<Rightarrow> middleware_result \<times> request \<times> world" where
  "uploadResume H parts w = upload_single H ''resume'' ''resumes'' resumeConfig parts w"

definition uploadImage ::
  "(byte list \<Rightarrow> string) \<Rightarrow> part list \<Rightarrow> world \<Rightarrow> middleware_result \<times> request \<times> world" where
  "uploadImage H parts w = upload_single H ''image'' ''images'' imageConfig parts w"

definition uploadAudio ::
  "(byte list \<Rightarrow> string) \<Rightarrow> part list \<Rightarrow> world \<Rightarrow> middleware_result \<times> request \<times> world" where
  "uploadAudio H parts w = upload_single H ''audio'' ''audio'' audioConfig parts w"

record field_spec =
  field_name :: string
  field_maxCount :: nat
  field_type :: string

definition multiple_filter :: "field_spec list \<Rightarrow> multer_file \<Rightarrow> filter_error + bool" where
  "multiple_filter fieldNames f =
     (case find (\<lambda>fc. field_name fc = fieldname f) fieldNames of
        None \<Rightarrow> Inl (FieldNotAllowed (fieldname f))
      | Some fieldConfig \<Rightarrow>
          (case map_of FILE_CONFIGS (field_type fieldConfig) of
             None \<Rightarrow> Inl (ConfigNotFound (field_type fieldConfig))
           | Some config \<Rightarrow> createFileFilter config f))"

definition uploadMultiple ::
  "(byte list \<Rightarrow> string) \<Rightarrow> field_spec list \<Rightarrow> nat \<Rightarrow> part list \<Rightarrow> world
     \<Rightarrow> middleware_result \<times> request \<times> world" where
  "uploadMultiple H fieldNames maxTotalSize parts w =
     (let opts = \<lparr>storage_subdir = ''temp'', fileFilter = multiple_filter fieldNames,
                  limit_fileSize = foldr max (map (\<lambda>c. maxSize (snd c)) FILE_CONFIGS) 0,
                  limit_files = sum_list (map field_maxCount fieldNames)\<rparr>
      in case multer_run opts parts (map (\<lambda>fc. (field_name fc, field_maxCount fc)) fieldNames) [] w of
           (error, stored, w1) \<Rightarrow> wrapMulter H (Some maxTotalSize) error (fields_request stored) w1)"

section \<open>Disk capacity guard\<close>

text \<open>
  A JavaScript number that is either \<^verbatim>\<open>NaN\<close> or an integer (rounding of integers beyond
  \<open>2^53\<close> is not modelled). A comparison with \<^verbatim>\<open>NaN\<close> is false.
\<close>

datatype jsnum = NaN | Num int

definition is_digit :: "char \<Rightarrow> bool" where
  "is_digit c = (48 \<le> (of_char c :: nat) \<and> (of_char c :: nat) \<le> 57)"

definition is_whitespace :: "char \<Rightarrow> bool" where
  "is_whitespace c = ((of_char c :: nat) \<in> set [9, 10, 11, 12, 13, 32, 160])"

definition hex_value :: "char \<Rightarrow> int option" where
  "hex_value c =
     (let n = (of_char c :: nat)
      in if 48 \<le> n \<and> n \<le> 57 then Some (int n - 48)
         else if 97 \<le> n \<and> n \<le> 102 then Some (int n - 87)
         else if 65 \<le> n \<and> n \<le> 70 then Some (int n - 55)
         else None)"

definition digit_value :: "int \<Rightarrow> char \<Rightarrow> int option" where
  "digit_value radix c =
     (case hex_value c of None \<Rightarrow> None | Some v \<Rightarrow> if v < radix then Some v else None)"

text \<open>The value of the longest prefix of digits of the radix, \<^verbatim>\<open>NaN\<close> when it is empty.\<close>

fun parse_digits :: "int \<Rightarrow> jsnum \<Rightarrow> string \<Rightarrow> jsnum" where
  "parse_digits radix acc [] = acc"
| "parse_digits radix acc (c # cs) =
     (case digit_value radix c of
        None \<Rightarrow> acc
      | Some v \<Rightarrow>
          parse_digits radix (Num ((case acc of NaN \<Rightarrow> 0 | Num a \<Rightarrow> a) * radix + v)) cs)"

definition jsnum_negate :: "jsnum \<Rightarrow> jsnum" where
  "jsnum_negate x = (case x of NaN \<Rightarrow> NaN | Num a \<Rightarrow> Num (- a))"

definition parseInt :: "string \<Rightarrow> jsnum" where
  "parseInt s =
     (let t = dropWhile is_whitespace s;
          neg = (case t of [] \<Rightarrow> False | c # _ \<Rightarrow> c = CHR ''-'');
          u = (case t of [] \<Rightarrow> [] | c # r \<Rightarrow> if c = CHR ''-'' \<or> c = CHR ''+'' then r else t);
          hex = (startsWith u ''0x'' \<or> startsWith u ''0X'');
          v = (if hex then parse_digits 16 NaN (drop 2 u) else parse_digits 10 NaN u)
      in if neg then jsnum_negate v else v)"

definition jsnum_times :: "jsnum \<Rightarrow> int \<Rightarrow> jsnum" where
  "jsnum_times x k = (case x of NaN \<Rightarrow> NaN | Num a \<Rightarrow> Num (a * k))"

text \<open>
  \<^verbatim>\<open>s.split(/\s+/)\<close>: the flag says that the previous character was white space.
\<close>

fun split_ws :: "bool \<Rightarrow> string \<Rightarrow> string list" where
  "split_ws prev [] = [[]]"
| "split_ws prev (c # cs) =
     (if is_whitespace c then (if prev then split_ws True cs else [] # split_ws True cs)
      else (case split_ws False cs of
              [] \<Rightarrow> [[c]]
            | p # ps \<Rightarrow> (c # p) # ps))"

text \<open>\<^verbatim>\<open>s.match(/(\d+)/g)\<close>: the maximal runs of digits, the empty list for \<^verbatim>\<open>null\<close>.\<close>

fun split_nondigit :: "string \<Rightarrow> string list" where
  "split_nondigit [] = [[]]"
| "split_nondigit (c # cs) =
     (if \<not> is_digit c then [] # split_nondigit cs
      else (case split_nondigit cs of
              [] \<Rightarrow> [[c]]
            | p # ps \<Rightarrow> (c # p) # ps))"

definition match_digits :: "string \<Rightarrow> string list" where
  "match_digits s = filter (\<lambda>r. r \<noteq> []) (split_nondigit s)"

datatype exec_result = ExecError | Stdout string

datatype 'a promise = Rejected | Resolved 'a

definition getFreeDiskSpace :: "bool \<Rightarrow> exec_result \<Rightarrow> jsnum promise" where
  "getFreeDiskSpace isWindows r =
     (case r of
        ExecError \<Rightarrow> Rejected
      | Stdout stdout \<Rightarrow>
          (let lines = split_on (CHR 0x0A) stdout
           in if isWindows then
                (if length lines < 2 then Rejected
                 else
                   (let lastLine = lines ! (length lines - 2)
                    in if lastLine = [] then Rejected
                       else
                         (let matches = match_digits lastLine
                          in if matches = [] \<or> length matches < 3 \<or> matches ! 2 = [] then Rejected
                             else Resolved (parseInt (matches ! 2)))))
              else
                (if length lines < 2 then Rejected
                 else
                   (let dataLine = lines ! 1
                    in if dataLine = [] then Rejected
                       else
                         (let parts = split_ws False dataLine
                          in if length parts < 4 \<or> parts ! 3 = [] then Rejected
                             else Resolved (jsnum_times (parseInt (parts ! 3)) 1024))))))"

text \<open>
  \<open>statOk\<close> says whether \<^verbatim>\<open>fs.statSync(uploadDir)\<close> returns; \<open>probe\<close> is what the shell
  command gives. The threshold is \<^verbatim>\<open>minFreeSpaceGB * 1024 * 1024 * 1024\<close>.
\<close>

definition checkDiskSpace :: "rat \<Rightarrow> bool \<Rightarrow> bool \<Rightarrow> exec_result \<Rightarrow> middleware_result" where
  "checkDiskSpace minFreeSpaceGB statOk isWindows probe =
     (if \<not> statOk then Next
      else (case getFreeDiskSpace isWindows probe of
              Rejected \<Rightarrow> Next
            | Resolved free \<Rightarrow>
                (let minFreeSpaceBytes = minFreeSpaceGB * 1024 * 1024 * 1024
                 in case free of
                      NaN \<Rightarrow> Next
                    | Num n \<Rightarrow> if of_int n < minFreeSpaceBytes then Respond 507 else Next)))"

section \<open>The job application route\<close>

text \<open>
  \<^verbatim>\<open>POST /job-application\<close> of \<^verbatim>\<open>createFormRoutes\<close> chains \<^verbatim>\<open>uploadResume\<close>, three
  middlewares on the request body (validation, XSS check, sanitisation; \<open>bodyOk\<close> says
  whether they all call \<^verbatim>\<open>next()\<close>, \<open>bodyError\<close> is what they answer otherwise),
  \<^verbatim>\<open>checkDiskSpace(2)\<close> and \<^verbatim>\<open>antivirusScan\<close> before the controller. A middleware that does
  not call \<^verbatim>\<open>next()\<close> ends the chain. The rate limiter in front of \<^verbatim>\<open>uploadResume\<close> is
  left out: a request it turns away never reaches the upload.
\<close>

definition jobApplicationRoute ::
  "(byte list \<Rightarrow> string) \<Rightarrow> part list \<Rightarrow> bool \<Rightarrow> middleware_result \<Rightarrow> bool \<Rightarrow> bool
     \<Rightarrow> exec_result \<Rightarrow> world \<Rightarrow> middleware_result \<times> request \<times> world" where
  "jobApplicationRoute H parts bodyOk bodyError statOk isWindows probe w =
     (case uploadResume H parts w of
        (Next, req, w1) \<Rightarrow>
          if \<not> bodyOk then (bodyError, req, w1)
          else (case checkDiskSpace 2 statOk isWindows probe of
                  Next \<Rightarrow> (case antivirusScan req w1 of (r, w2) \<Rightarrow> (r, req, w2))
                | r \<Rightarrow> (r, req, w1))
      | (r, req, w1) \<Rightarrow> (r, req, w1))"

section \<open>Example inputs\<close>

text \<open>
  The theorems of this development hold for every digest function \<open>H\<close>. Where the model is
  run on a concrete request, \<open>H\<close> is the table of the SHA-256 digests of the byte strings those
  requests carry (the empty file, \<^verbatim>\<open>hi\<close> and the five bytes \<^verbatim>\<open>25 50 44 46 2D\<close>), and
  the disk is the empty one with the files of the example written to it.
\<close>

definition sha256_examples :: "byte list \<Rightarrow> string" where
  "sha256_examples bytes =
     (if bytes = [] then ''e3b0c44298fc1c149afbf4c8996fb92427ae41e4649b934ca495991b7852b855''
      else if bytes = [0x68, 0x69] then ''8f434346648f6b96df89dda901c5176b10a6d83961dd3c1ac88b59b2dc327aa4''
      else if bytes = [0x25, 0x50, 0x44, 0x46, 0x2D]
      then ''38523c087796e5d5dd1cf9bad1fb026781a838dd9dd2cf8af58b9f6502a46778''
      else [])"

definition empty_disk :: fsys where
  "empty_disk = Map.empty"

lemma empty_disk_apply [simp]: "empty_disk p = None"
  by (simp add: empty_disk_def)

lemma empty_disk_upd_None [simp]: "empty_disk(p := None) = empty_disk"
  by (simp add: empty_disk_def)

lemma sha256_examples_values:
  "sha256_examples [] = ''e3b0c44298fc1c149afbf4c8996fb92427ae41e4649b934ca495991b7852b855''"
  "sha256_examples [0x68, 0x69] = ''8f434346648f6b96df89dda901c5176b10a6d83961dd3c1ac88b59b2dc327aa4''"
  "sha256_examples [0x25, 0x50, 0x44, 0x46, 0x2D] = ''38523c087796e5d5dd1cf9bad1fb026781a838dd9dd2cf8af58b9f6502a46778''"
  by (simp_all add: sha256_examples_def)

section \<open>Magic-byte verification\<close>

text \<open>
  The zero padding of the 32-byte buffer cannot complete a registered signature, since
  none of them ends in a zero byte: comparing the buffer is comparing the file.
\<close>

lemma take_readBuffer:
  assumes "length m \<le> n" "m \<noteq> []" "last m \<noteq> 0"
  shows "(take (length m) (readBuffer n bytes) = m) = (take (length m) bytes = m)"
proof (cases "length m \<le> length bytes")
  case True
  then show ?thesis using assms by (simp add: readBuffer_def min_def)
next
  case False
  then have lt: "length bytes < length m" by simp
  have rhs: "take (length m) bytes \<noteq> m"
  proof
    assume "take (length m) bytes = m"
    then have "length (take (length m) bytes) = length m" by simp
    with lt show False by simp
  qed
  have lhs: "take (length m) (readBuffer n bytes) \<noteq> m"
  proof
    assume eq: "take (length m) (readBuffer n bytes) = m"
    have "last m = m ! (length m - 1)" using assms(2) by (simp add: last_conv_nth)
    also have "\<dots> = take (length m) (readBuffer n bytes) ! (length m - 1)" using eq by simp
    also have "\<dots> = readBuffer n bytes ! (length m - 1)" using assms(2) by simp
    also have "\<dots> = 0" using lt assms(1,2)
      by (auto simp: readBuffer_def nth_append min_def)
    finally show False using assms(3) by simp
  qed
  from lhs rhs show ?thesis by simp
qed

lemma registered_signature_shape:
  assumes "map_of magicBytes key = Some sigs" "m \<in> set sigs"
  shows "length m \<le> 32 \<and> m \<noteq> [] \<and> last m \<noteq> 0"
  using assms by (auto simp: magicBytes_def split: if_splits)

lemma signature_match_readBuffer:
  assumes "map_of magicBytes key = Some sigs"
  shows "list_ex (\<lambda>magic. take (length magic) (readBuffer 32 bytes) = magic) sigs
           = (\<exists>m\<in>set sigs. take (length m) bytes = m)"
  using registered_signature_shape [OF assms] take_readBuffer
  by (simp add: list_ex_iff)

lemma toLowerCase_prototype_keys:
  "key \<in> set Object_prototype_keys \<Longrightarrow>
     toLowerCase key \<in> set [''constructor'', ''__proto__'', ''hasownproperty'', ''isprototypeof'',
      ''propertyisenumerable'', ''tolocalestring'', ''tostring'', ''valueof'',
      ''__definegetter__'', ''__definesetter__'', ''__lookupgetter__'', ''__lookupsetter__'']"
  by (auto simp: Object_prototype_keys_def toLowerCase_def toLowerCase_char_def)

lemma admitted_mimetype_not_inherited:
  assumes "cfg \<in> snd ` set FILE_CONFIGS" "toLowerCase mt \<in> set (mimeTypes cfg)"
  shows "mt \<notin> set Object_prototype_keys"
proof
  assume "mt \<in> set Object_prototype_keys"
  from toLowerCase_prototype_keys [OF this] assms show False
    by (auto simp: FILE_CONFIGS_def resumeConfig_def imageConfig_def audioConfig_def documentConfig_def)
qed

text \<open>
  Claim C1. For every uploaded file whose temporary artifact can be read and whose declared
  MIME type the type filter of a category has admitted: if the declared MIME type has a
  registered list of signatures, content validation passes if and only if the leading
  bytes of the file equal one of the registered prefixes, and it passes for every
  declared MIME type without a registered signature. In particular a file declared
  \<^verbatim>\<open>application/pdf\<close> passes exactly when its first four bytes are \<^verbatim>\<open>25 50 44 46\<close>.
\<close>

theorem magic_byte_contract:
  assumes "cfg \<in> snd ` set FILE_CONFIGS"
    and "toLowerCase (mimetype f) \<in> set (mimeTypes cfg)"
    and "fs (path f) = Some bytes"
  shows "validateFileContent fs f =
           (case map_of magicBytes (mimetype f) of
              None \<Rightarrow> True
            | Some sigs \<Rightarrow> (\<exists>m\<in>set sigs. take (length m) bytes = m))
         \<and> (mimetype f = ''application/pdf'' \<longrightarrow>
              validateFileContent fs f = (take 4 bytes = [0x25, 0x50, 0x44, 0x46]))"
proof -
  have ni: "mimetype f \<notin> set Object_prototype_keys"
    using admitted_mimetype_not_inherited [OF assms(1,2)] .
  have main: "validateFileContent fs f =
           (case map_of magicBytes (mimetype f) of
              None \<Rightarrow> True
            | Some sigs \<Rightarrow> (\<exists>m\<in>set sigs. take (length m) bytes = m))"
  proof (cases "map_of magicBytes (mimetype f)")
    case None
    then show ?thesis using ni assms(3)
      by (simp add: validateFileContent_def magicBytes_get_def)
  next
    case (Some sigs)
    then show ?thesis using assms(3) signature_match_readBuffer [OF Some]
      by (simp add: validateFileContent_def magicBytes_get_def)
  qed
  have pdf: "map_of magicBytes ''application/pdf'' = Some [[0x25, 0x50, 0x44, 0x46]]"
    by (simp add: magicBytes_def)
  have "validateFileContent fs f = (take 4 bytes = [0x25, 0x50, 0x44, 0x46])"
    if "mimetype f = ''application/pdf''"
    using main pdf that by (simp add: eval_nat_numeral)
  with main show ?thesis by blast
qed

theorem magic_byte_contract_witness:
  "resumeConfig \<in> snd ` set FILE_CONFIGS
   \<and> toLowerCase ''application/pdf'' \<in> set (mimeTypes resumeConfig)
   \<and> validateFileContent (empty_disk(''uploads/resumes/1_ab.pdf'' \<mapsto> [0x25, 0x50, 0x44, 0x46, 0x2D]))
       \<lparr>fieldname = ''resume'', originalname = ''cv.pdf'', mimetype = ''application/pdf'',
        fsize = Some 5, path = ''uploads/resumes/1_ab.pdf'', filename = ''1_ab.pdf'',
        hash = None, finalPath = None\<rparr>"
  using magic_byte_contract [of resumeConfig
     "\<lparr>fieldname = ''resume'', originalname = ''cv.pdf'', mimetype = ''application/pdf'',
      fsize = Some 5, path = ''uploads/resumes/1_ab.pdf'', filename = ''1_ab.pdf'',
      hash = None, finalPath = None\<rparr>"
     "(empty_disk(''uploads/resumes/1_ab.pdf'' \<mapsto> [0x25, 0x50, 0x44, 0x46, 0x2D]))"
     "[0x25, 0x50, 0x44, 0x46, 0x2D]"]
  by (simp add: FILE_CONFIGS_def resumeConfig_def toLowerCase_def toLowerCase_char_def magicBytes_def)

section \<open>Read errors during content inspection\<close>

text \<open>
  Claim C10. When the leading bytes of a file cannot be read (opening the path throws),
  \<^verbatim>\<open>validateFileContent\<close> returns false and \<^verbatim>\<open>performAntivirusScan\<close> returns false: both
  inspections reject the file. The disk capacity guard has the opposite polarity: when
  its probe fails, it calls \<^verbatim>\<open>next()\<close>.
\<close>

theorem content_inspection_fails_closed:
  "(d (path f) = None \<longrightarrow> \<not> validateFileContent d f \<and> \<not> performAntivirusScan d f)
   \<and> checkDiskSpace g statOk isW ExecError = Next"
  by (simp add: validateFileContent_def performAntivirusScan_def checkDiskSpace_def
      getFreeDiskSpace_def)

theorem content_inspection_fails_closed_witness:
  "empty_disk ''uploads/temp/1_ab.pdf'' = None
   \<and> \<not> validateFileContent empty_disk
       \<lparr>fieldname = ''resume'', originalname = ''cv.pdf'', mimetype = ''application/pdf'',
        fsize = Some 5, path = ''uploads/temp/1_ab.pdf'', filename = ''1_ab.pdf'',
        hash = None, finalPath = None\<rparr>
   \<and> \<not> performAntivirusScan empty_disk
       \<lparr>fieldname = ''resume'', originalname = ''cv.pdf'', mimetype = ''application/pdf'',
        fsize = Some 5, path = ''uploads/temp/1_ab.pdf'', filename = ''1_ab.pdf'',
        hash = None, finalPath = None\<rparr>"
  using content_inspection_fails_closed [of empty_disk
     "\<lparr>fieldname = ''resume'', originalname = ''cv.pdf'', mimetype = ''application/pdf'',
      fsize = Some 5, path = ''uploads/temp/1_ab.pdf'', filename = ''1_ab.pdf'',
      hash = None, finalPath = None\<rparr>"]
  by simp

section \<open>Filename safety\<close>










section \<open>Disk capacity guard: fail-open\<close>

text \<open>
  Claim C9. The guard answers 507 exactly when \<^verbatim>\<open>fs.statSync\<close> returns, the free-space
  probe resolves with a number, and that number is strictly below the threshold. In
  every other case it calls \<^verbatim>\<open>next()\<close>: in particular when the probe rejects (the command
  fails, or its output cannot be split as expected) and when the parsed figure is
  \<^verbatim>\<open>NaN\<close>.
\<close>

theorem disk_guard_fail_open:
  "(checkDiskSpace g statOk isW probe = Respond 507 \<longleftrightarrow>
      statOk \<and> (\<exists>n. getFreeDiskSpace isW probe = Resolved (Num n) \<and> of_int n < g * 1024 * 1024 * 1024))
   \<and> (checkDiskSpace g statOk isW probe \<noteq> Respond 507 \<longrightarrow> checkDiskSpace g statOk isW probe = Next)
   \<and> (getFreeDiskSpace isW probe = Rejected \<or> getFreeDiskSpace isW probe = Resolved NaN
        \<longrightarrow> checkDiskSpace g statOk isW probe = Next)
   \<and> getFreeDiskSpace isW ExecError = Rejected"
  by (auto simp: checkDiskSpace_def getFreeDiskSpace_def Let_def split: promise.splits jsnum.splits)

lemma df_low: "getFreeDiskSpace False (Stdout (''Filesystem 1K-blocks Used Available Use% Mounted on'' @ [CHR 0x0A] @ ''/dev/sda1 1000 500 500 50% /'' @ [CHR 0x0A])) = Resolved (Num 512000)"
  by code_simp

lemma df_garbage: "getFreeDiskSpace False (Stdout ''df: no such file'') = Rejected"
  by code_simp

theorem disk_guard_fail_open_witness:
  "checkDiskSpace 2 True False (Stdout (''Filesystem 1K-blocks Used Available Use% Mounted on''
      @ [CHR 0x0A] @ ''/dev/sda1 1000 500 500 50% /'' @ [CHR 0x0A])) = Respond 507
   \<and> checkDiskSpace 2 True False (Stdout ''df: no such file'') = Next
   \<and> checkDiskSpace 2 True False ExecError = Next"
  using disk_guard_fail_open [of 2 True False "Stdout (''Filesystem 1K-blocks Used Available Use% Mounted on''
      @ [CHR 0x0A] @ ''/dev/sda1 1000 500 500 50% /'' @ [CHR 0x0A])"]
    disk_guard_fail_open [of 2 True False "Stdout ''df: no such file''"]
    disk_guard_fail_open [of 2 True False ExecError]
    df_low df_garbage
  by simp

section \<open>Facts about the stages\<close>

text \<open>Deleting temporary files touches the disk at their paths and nothing else.\<close>

lemma unlink_if_exists_eq: "unlink_if_exists w f = w\<lparr>disk := (disk w)(path f := None)\<rparr>"
  by (cases "disk w (path f)") (simp_all add: unlink_if_exists_def fun_upd_idem)

lemma foldl_unlink:
  "foldl unlink_if_exists w fl = w\<lparr>disk := (\<lambda>p. if p \<in> path ` set fl then None else disk w p)\<rparr>"
proof (induction fl arbitrary: w)
  case Nil
  show ?case by simp
next
  case (Cons f fl)
  have eq: "(\<lambda>p. if p \<in> path ` set fl then None
                 else disk (w\<lparr>disk := (disk w)(path f := None)\<rparr>) p)
        = (\<lambda>p. if p \<in> path ` set (f # fl) then None else disk w p)"
    by (rule ext) auto
  have "foldl unlink_if_exists w (f # fl) = foldl unlink_if_exists (unlink_if_exists w f) fl"
    by simp
  also have "\<dots> = (unlink_if_exists w f)\<lparr>disk := (\<lambda>p. if p \<in> path ` set fl then None
                 else disk (unlink_if_exists w f) p)\<rparr>"
    by (rule Cons.IH)
  also have "\<dots> = w\<lparr>disk := (\<lambda>p. if p \<in> path ` set (f # fl) then None else disk w p)\<rparr>"
    unfolding unlink_if_exists_eq eq by simp
  finally show ?case .
qed

lemma cleanupTempFiles_eq:
  "cleanupTempFiles req w =
     w\<lparr>disk := (\<lambda>p. if p \<in> path ` set (getAllFiles req) then None else disk w p)\<rparr>"
  by (simp add: cleanupTempFiles_def foldl_unlink)

lemma hashed_unlink [simp]: "hashed (foldl unlink_if_exists w fl) = hashed w"
  by (induction fl arbitrary: w) (simp_all add: unlink_if_exists_def)

lemma hashed_cleanup [simp]: "hashed (cleanupTempFiles req w) = hashed w"
  by (simp add: cleanupTempFiles_def)

lemma wrapMulter_error:
  "wrapMulter H m (Some e) req w =
     (NextError (case e of MulterError c \<Rightarrow> handleMulterError c | FilterError fe \<Rightarrow> UploadFailed fe),
      req, cleanupTempFiles req w)"
  by (cases e) (simp_all add: wrapMulter_def)


text \<open>The multipart library on a request: one stored part, an oversized part, the digest log.\<close>

lemma multer_run_one_stored:
  assumes "0 < limit_files opts"
    and "map_of filesLeft (part_fieldname p) = Some (Suc k)"
    and "fileFilter opts (incoming_file p) = Inr True"
    and "length (part_content p) \<le> limit_fileSize opts"
  shows "multer_run opts [p] filesLeft [] w =
           (None, [stored_file (storage_subdir opts) p],
            w\<lparr>disk := (disk w)(path (stored_file (storage_subdir opts) p) \<mapsto> part_content p)\<rparr>)"
  using assms by (simp add: Let_def)

lemma multer_run_hashed: "multer_run opts ps filesLeft stored w = (err, stored', w') \<Longrightarrow> hashed w' = hashed w"
proof (induction ps arbitrary: filesLeft stored w)
  case Nil
  then show ?case by simp
next
  case (Cons p ps)
  show ?case
  proof (cases "fileFilter opts (incoming_file p)")
    case (Inl e)
    with Cons.prems show ?thesis
      by (auto simp: multer_abort_def Let_def split: if_splits)
  next
    case (Inr b)
    with Cons.prems Cons.IH show ?thesis
      by (cases b) (auto simp: multer_abort_def Let_def split: if_splits)
  qed
qed

lemma multer_run_oversize:
  assumes "\<exists>p\<in>set ps. length (part_content p) > limit_fileSize opts"
    and "\<And>f. fileFilter opts f \<noteq> Inr False"
  shows "\<exists>e. fst (multer_run opts ps filesLeft stored w) = Some e"
  using assms(1)
proof (induction ps arbitrary: filesLeft stored w)
  case Nil
  then show ?case by simp
next
  case (Cons p ps)
  show ?case
  proof (cases "fileFilter opts (incoming_file p)")
    case (Inl e)
    then show ?thesis by (simp add: multer_abort_def Let_def)
  next
    case (Inr b)
    with assms(2) have b: "b" by (cases b) auto
    show ?thesis
    proof (cases "length (part_content p) > limit_fileSize opts")
      case True
      with Inr b show ?thesis by (simp add: multer_abort_def Let_def)
    next
      case False
      with Cons.prems have "\<exists>q\<in>set ps. length (part_content q) > limit_fileSize opts" by auto
      from Cons.IH [OF this] Inr b False show ?thesis
        by (simp add: multer_abort_def Let_def)
    qed
  qed
qed

lemma createFileFilter_not_skip: "createFileFilter cfg f \<noteq> Inr False"
  by (simp add: createFileFilter_def Let_def)

lemma multiple_filter_not_skip: "multiple_filter fns f \<noteq> Inr False"
  by (simp add: multiple_filter_def createFileFilter_not_skip split: option.splits)

lemma getAllFiles_fields_one: "getAllFiles (fields_request [f]) = [f]"
  by (simp add: getAllFiles_def fields_request_def)

lemma getAllFiles_single_one: "getAllFiles (single_request [f]) = [f]"
  by (simp add: getAllFiles_def single_request_def)

text \<open>Processing a request that holds exactly one stored file.\<close>

lemma validateFileContent_cong:
  "d (path f) = d' (path f) \<Longrightarrow> validateFileContent d f = validateFileContent d' f"
  by (simp add: validateFileContent_def)

lemma processUploadedFiles_one:
  assumes "disk w (path f) = Some bytes"
  shows "processUploadedFiles H [f] w =
     (let w1 = w\<lparr>hashed := hashed w @ [path f]\<rparr>; f1 = f\<lparr>hash := Some (H bytes)\<rparr>
      in if \<not> validateFileContent (disk w) f then (Inl (InvalidContent (originalname f)), w1)
         else (case moveFileToFinalLocation f1 w1 of
                 (Inl e, w2) \<Rightarrow> (Inl e, w2)
               | (Inr newPath, w2) \<Rightarrow> (Inr [f1\<lparr>finalPath := Some newPath\<rparr>], w2)))"
  using assms
  by (simp add: generateFileHash_def Let_def validateFileContent_def split: prod.splits sum.splits)

lemma moveFileToFinalLocation_ok:
  assumes "disk w (path f) = Some bytes" and "final_location f \<noteq> path f"
  shows "moveFileToFinalLocation f w =
           (Inr (final_location f),
            w\<lparr>disk := ((disk w)(path f := None))
                 (final_location f \<mapsto> (case disk w (final_location f) of
                                         None \<Rightarrow> bytes | Some old \<Rightarrow> old))\<rparr>)"
proof (cases "disk w (final_location f)")
  case None
  then show ?thesis using assms by (simp add: moveFileToFinalLocation_def Let_def)
next
  case (Some old)
  have "((disk w)(path f := None))(final_location f \<mapsto> old) = (disk w)(path f := None)"
    using Some assms(2) by (intro fun_upd_idem) simp
  then show ?thesis using Some assms by (simp add: moveFileToFinalLocation_def Let_def)
qed


lemma final_location_nonempty: "final_location f \<noteq> []"
  by (simp add: final_location_def path_join_def Let_def)

lemma wrapMulter_one_accepted:
  assumes "getAllFiles req = [f]" and "disk w (path f) = Some bytes"
    and "validateFileContent (disk w) f"
    and "\<not> total_size_exceeded m req"
    and "F = final_location (f\<lparr>hash := Some (H bytes)\<rparr>)" and "F \<noteq> path f"
  shows "wrapMulter H m None req w =
           (Next,
            req\<lparr>fileMetadata :=
                  Some (extractFileMetadata [f\<lparr>hash := Some (H bytes), finalPath := Some F\<rparr>])\<rparr>,
            w\<lparr>hashed := hashed w @ [path f],
              disk := ((disk w)(path f := None))
                        (F \<mapsto> (case disk w F of None \<Rightarrow> bytes | Some old \<Rightarrow> old))\<rparr>)"
proof -
  let ?f1 = "f\<lparr>hash := Some (H bytes)\<rparr>"
  let ?w1 = "w\<lparr>hashed := hashed w @ [path f]\<rparr>"
  have mv: "moveFileToFinalLocation ?f1 ?w1 =
      (Inr F, ?w1\<lparr>disk := ((disk ?w1)(path ?f1 := None))
                 (F \<mapsto> (case disk ?w1 F of None \<Rightarrow> bytes | Some old \<Rightarrow> old))\<rparr>)"
    using moveFileToFinalLocation_ok [of ?w1 ?f1 bytes] assms(2,5,6) by simp
  have proc: "processUploadedFiles H [f] w =
      (Inr [?f1\<lparr>finalPath := Some F\<rparr>],
       w\<lparr>hashed := hashed w @ [path f],
         disk := ((disk w)(path f := None))
                        (F \<mapsto> (case disk w F of None \<Rightarrow> bytes | Some old \<Rightarrow> old))\<rparr>)"
    using assms(3) mv by (subst processUploadedFiles_one [OF assms(2)]) (simp add: Let_def)
  show ?thesis
    unfolding wrapMulter_def
    using proc assms(1,4) by simp
qed


text \<open>Rewrite rules that evaluate the string functions and the file filter on literals.\<close>

lemmas string_eval = toLowerCase_def toLowerCase_char_def extname_def last_segment_def
  path_join_def uploadDir_def startsWith_def sha256_examples_values

lemmas filter_eval = createFileFilter_def performSecurityChecks_def dangerousChars_def
  suspiciousExtensions_def incoming_file_def

lemma magicBytes_get_text: "magicBytes_get ''text/plain'' = Undefined"
  by (simp add: magicBytes_get_def magicBytes_def Object_prototype_keys_def)

section \<open>Temporary artifacts of rejected requests\<close>



section \<open>Aggregate size guard\<close>

text \<open>
  Claim C8, as stated, fails when the caller supplies the ceiling \<open>0\<close>: the guard
  \<^verbatim>\<open>maxTotalSize && req.files\<close> is then false, the batch of two bytes is processed, and
  its file ends up in the final directory.
\<close>

theorem aggregate_size_guard_counterexample:
  "fst (uploadMultiple sha256_examples
          [\<lparr>field_name = ''docs'', field_maxCount = 2, field_type = ''document''\<rparr>] 0
          [\<lparr>part_fieldname = ''docs'', part_originalname = ''note.txt'',
            part_mimetype = ''text/plain'', part_content = [0x68, 0x69],
            part_stamp = ''1_ab''\<rparr>]
          \<lparr>disk = empty_disk, hashed = []\<rparr>) = Next
   \<and> disk (snd (snd (uploadMultiple sha256_examples
          [\<lparr>field_name = ''docs'', field_maxCount = 2, field_type = ''document''\<rparr>] 0
          [\<lparr>part_fieldname = ''docs'', part_originalname = ''note.txt'',
            part_mimetype = ''text/plain'', part_content = [0x68, 0x69],
            part_stamp = ''1_ab''\<rparr>]
          \<lparr>disk = empty_disk, hashed = []\<rparr>))) ''uploads/documents/8f434346648f6b96df89dda901c5176b10a6d83961dd3c1ac88b59b2dc327aa4.txt'' = Some [0x68, 0x69]"
proof -
  let ?p = "\<lparr>part_fieldname = ''docs'', part_originalname = ''note.txt'',
            part_mimetype = ''text/plain'', part_content = [0x68, 0x69 :: byte],
            part_stamp = ''1_ab''\<rparr>"
  let ?fns = "[\<lparr>field_name = ''docs'', field_maxCount = 2, field_type = ''document''\<rparr>]"
  let ?opts = "\<lparr>storage_subdir = ''temp'', fileFilter = multiple_filter ?fns,
                  limit_fileSize = foldr max (map (\<lambda>c. maxSize (snd c)) FILE_CONFIGS) 0,
                  limit_files = sum_list (map field_maxCount ?fns)\<rparr>"
  let ?w = "\<lparr>disk = empty_disk, hashed = []\<rparr>"
  let ?f = "stored_file ''temp'' ?p"
  have filt: "fileFilter ?opts (incoming_file ?p) = Inr True"
    by (simp add: multiple_filter_def FILE_CONFIGS_def documentConfig_def filter_eval string_eval)
  have run: "multer_run ?opts [?p] [(''docs'', 2)] [] ?w =
      (None, [?f], ?w\<lparr>disk := (disk ?w)(path ?f \<mapsto> part_content ?p)\<rparr>)"
    using multer_run_one_stored [of ?opts "[(''docs'', 2)]" ?p 1 ?w] filt
    by (simp add: FILE_CONFIGS_def resumeConfig_def imageConfig_def audioConfig_def documentConfig_def)
  have f: "?f = \<lparr>fieldname = ''docs'', originalname = ''note.txt'', mimetype = ''text/plain'',
      fsize = Some 2, path = ''uploads/temp/1_ab.txt'', filename = ''1_ab.txt'',
      hash = None, finalPath = None\<rparr>"
    by (simp add: stored_file_def incoming_file_def createStorage_filename_def
        createStorage_destination_def string_eval Let_def eval_nat_numeral)
  have valid: "validateFileContent (empty_disk(''uploads/temp/1_ab.txt'' \<mapsto> [0x68, 0x69])) ?f"
    unfolding f by (simp add: validateFileContent_def magicBytes_get_text)
  have loc: "final_location (?f\<lparr>hash := Some ''8f434346648f6b96df89dda901c5176b10a6d83961dd3c1ac88b59b2dc327aa4''\<rparr>) = ''uploads/documents/8f434346648f6b96df89dda901c5176b10a6d83961dd3c1ac88b59b2dc327aa4.txt''"
    unfolding f by (simp add: final_location_def final_subdir_def string_eval)
  have proc: "processUploadedFiles sha256_examples [?f]
        \<lparr>disk = (empty_disk(''uploads/temp/1_ab.txt'' \<mapsto> [0x68, 0x69])), hashed = []\<rparr>
      = (Inr [?f\<lparr>hash := Some ''8f434346648f6b96df89dda901c5176b10a6d83961dd3c1ac88b59b2dc327aa4'', finalPath := Some ''uploads/documents/8f434346648f6b96df89dda901c5176b10a6d83961dd3c1ac88b59b2dc327aa4.txt''\<rparr>],
         \<lparr>disk = (empty_disk(''uploads/documents/8f434346648f6b96df89dda901c5176b10a6d83961dd3c1ac88b59b2dc327aa4.txt'' \<mapsto> [0x68, 0x69])),
          hashed = [''uploads/temp/1_ab.txt'']\<rparr>)"
    using valid loc
    by (subst processUploadedFiles_one [where bytes = "[0x68, 0x69]"])
       (simp_all add: f moveFileToFinalLocation_def Let_def sha256_examples_values)
  show ?thesis
    unfolding uploadMultiple_def Let_def
    using run proc
    by (simp add: wrapMulter_def total_size_exceeded_def getAllFiles_fields_one f)
qed

text \<open>
  Claim C8, amended. For every batch and every non-zero ceiling: if the sum of the sizes
  of the files in \<^verbatim>\<open>req.files\<close> exceeds the ceiling, the whole batch is rejected, every
  temporary file of the batch is deleted, no file is hashed, and the disk is unchanged
  everywhere else, so no final directory receives a file of the batch.
\<close>

theorem aggregate_size_guard:
  assumes "m \<noteq> 0" and "req_files req = Some files"
    and "calculateTotalSize files = Some t" and "t > m"
  shows "\<exists>w'. wrapMulter H (Some m) None req w = (NextError TotalSizeExceeded, req, w')
           \<and> (\<forall>f\<in>set (getAllFiles req). disk w' (path f) = None)
           \<and> (\<forall>p. p \<notin> path ` set (getAllFiles req) \<longrightarrow> disk w' p = disk w p)
           \<and> hashed w' = hashed w"
  using assms by (simp add: wrapMulter_def total_size_exceeded_def cleanupTempFiles_eq)

theorem aggregate_size_guard_witness:
  "fst (wrapMulter sha256_examples (Some 1) None
          \<lparr>req_file = None,
            req_files = Some (FileObject [(''docs'',
              [\<lparr>fieldname = ''docs'', originalname = ''note.txt'', mimetype = ''text/plain'',
                fsize = Some 2, path = ''uploads/temp/1_ab.txt'', filename = ''1_ab.txt'',
                hash = None, finalPath = None\<rparr>])]),
            fileMetadata = None\<rparr>
          \<lparr>disk = (empty_disk(''uploads/temp/1_ab.txt'' \<mapsto> [0x68, 0x69])), hashed = []\<rparr>)
     = NextError TotalSizeExceeded"
proof -
  let ?f = "\<lparr>fieldname = ''docs'', originalname = ''note.txt'', mimetype = ''text/plain'',
                fsize = Some 2, path = ''uploads/temp/1_ab.txt'', filename = ''1_ab.txt'',
                hash = None, finalPath = None\<rparr>"
  let ?req = "\<lparr>req_file = None, req_files = Some (FileObject [(''docs'', [?f])]),
            fileMetadata = None\<rparr>"
  let ?w = "\<lparr>disk = (empty_disk(''uploads/temp/1_ab.txt'' \<mapsto> [0x68, 0x69 :: byte])), hashed = []\<rparr>"
  have t: "calculateTotalSize (FileObject [(''docs'', [?f])]) = Some 2"
    by (simp add: calculateTotalSize_def add_size_def add_total_def)
  from aggregate_size_guard [of 1 ?req "FileObject [(''docs'', [?f])]" 2 sha256_examples ?w] t
  show ?thesis by auto
qed

section \<open>Facts about requests with a single file part\<close>

lemma stored_file_fields:
  "stored_file subdir p =
     \<lparr>fieldname = part_fieldname p, originalname = part_originalname p,
      mimetype = part_mimetype p, fsize = Some (length (part_content p)),
      path = uploadDir @ ''/'' @ subdir @ ''/'' @ part_stamp p @ toLowerCase (extname (part_originalname p)),
      filename = part_stamp p @ toLowerCase (extname (part_originalname p)),
      hash = None, finalPath = None\<rparr>"
  by (simp add: stored_file_def incoming_file_def createStorage_filename_def
      createStorage_destination_def path_join_def Let_def)

lemma upload_single_stored:
  assumes "createFileFilter config (incoming_file p) = Inr True"
    and "part_fieldname p = field"
    and "length (part_content p) \<le> maxSize config"
  shows "upload_single H field subdir config [p] w =
           wrapMulter H None None (single_request [stored_file subdir p])
             (w\<lparr>disk := (disk w)(path (stored_file subdir p) \<mapsto> part_content p)\<rparr>)"
proof -
  let ?opts = "\<lparr>storage_subdir = subdir, fileFilter = createFileFilter config,
                  limit_fileSize = maxSize config, limit_files = 1\<rparr>"
  have "multer_run ?opts [p] [(field, 1)] [] w =
          (None, [stored_file (storage_subdir ?opts) p],
           w\<lparr>disk := (disk w)(path (stored_file (storage_subdir ?opts) p) \<mapsto> part_content p)\<rparr>)"
    by (rule multer_run_one_stored [where k = 0]) (use assms in simp_all)
  then show ?thesis by (simp add: upload_single_def)
qed

lemma upload_single_aborted:
  assumes "createFileFilter config (incoming_file p) \<noteq> Inr True
           \<or> part_fieldname p \<noteq> field
           \<or> length (part_content p) > maxSize config"
  shows "\<exists>e. upload_single H field subdir config [p] w = (NextError e, single_request [], w)
           \<and> (createFileFilter config (incoming_file p) = Inr True \<and> part_fieldname p = field
                \<longrightarrow> e = FileTooLarge)"
proof -
  let ?opts = "\<lparr>storage_subdir = subdir, fileFilter = createFileFilter config,
                  limit_fileSize = maxSize config, limit_files = 1\<rparr>"
  have cl: "cleanupTempFiles (single_request []) w = w"
    by (simp add: cleanupTempFiles_def getAllFiles_def single_request_def)
  have "\<exists>ue. multer_run ?opts [p] [(field, 1)] [] w = (Some ue, [], w)
          \<and> (createFileFilter config (incoming_file p) = Inr True \<and> part_fieldname p = field
                \<longrightarrow> ue = MulterError LIMIT_FILE_SIZE)"
  proof (cases "createFileFilter config (incoming_file p)")
    case (Inl fe)
    then show ?thesis by (simp add: multer_abort_def Let_def)
  next
    case (Inr b)
    with createFileFilter_not_skip [of config "incoming_file p"] have b: "b" by (cases b) auto
    with Inr assms show ?thesis by (auto simp: multer_abort_def Let_def)
  qed
  then obtain ue where run: "multer_run ?opts [p] [(field, 1)] [] w = (Some ue, [], w)"
    and tl: "createFileFilter config (incoming_file p) = Inr True \<and> part_fieldname p = field
                \<longrightarrow> ue = MulterError LIMIT_FILE_SIZE" by blast
  have "upload_single H field subdir config [p] w =
      (NextError (case ue of MulterError c \<Rightarrow> handleMulterError c | FilterError fe \<Rightarrow> UploadFailed fe),
       single_request [], w)"
    using run cl by (simp add: upload_single_def wrapMulter_error)
  moreover have "createFileFilter config (incoming_file p) = Inr True \<and> part_fieldname p = field
      \<longrightarrow> (case ue of MulterError c \<Rightarrow> handleMulterError c | FilterError fe \<Rightarrow> UploadFailed fe) = FileTooLarge"
    using tl by (auto simp: handleMulterError_def)
  ultimately show ?thesis by blast
qed


lemma upload_single_accepted:
  assumes "createFileFilter config (incoming_file p) = Inr True"
    and "part_fieldname p = field"
    and "length (part_content p) \<le> maxSize config"
    and "validateFileContent [path (stored_file subdir p) \<mapsto> part_content p] (stored_file subdir p)"
    and "F = final_location ((stored_file subdir p)\<lparr>hash := Some (H (part_content p))\<rparr>)"
    and "F \<noteq> path (stored_file subdir p)"
  shows "upload_single H field subdir config [p] w =
           (Next,
            (single_request [stored_file subdir p])\<lparr>fileMetadata :=
               Some (extractFileMetadata
                 [(stored_file subdir p)\<lparr>hash := Some (H (part_content p)), finalPath := Some F\<rparr>])\<rparr>,
            w\<lparr>hashed := hashed w @ [path (stored_file subdir p)],
              disk := ((disk w)(path (stored_file subdir p) := None))
                        (F \<mapsto> (case disk w F of None \<Rightarrow> part_content p | Some old \<Rightarrow> old))\<rparr>)"
proof -
  let ?sf = "stored_file subdir p"
  let ?w1 = "w\<lparr>disk := (disk w)(path ?sf \<mapsto> part_content p)\<rparr>"
  have v: "validateFileContent (disk ?w1) ?sf"
    using assms(4) validateFileContent_cong [of "disk ?w1" ?sf "[path ?sf \<mapsto> part_content p]"]
    by simp
  have "wrapMulter H None None (single_request [?sf]) ?w1 =
           (Next,
            (single_request [?sf])\<lparr>fileMetadata :=
               Some (extractFileMetadata
                 [?sf\<lparr>hash := Some (H (part_content p)), finalPath := Some F\<rparr>])\<rparr>,
            ?w1\<lparr>hashed := hashed ?w1 @ [path ?sf],
              disk := ((disk ?w1)(path ?sf := None))
                        (F \<mapsto> (case disk ?w1 F of None \<Rightarrow> part_content p | Some old \<Rightarrow> old))\<rparr>)"
    by (rule wrapMulter_one_accepted [where bytes = "part_content p"])
       (use v assms(5,6) in \<open>simp_all add: getAllFiles_single_one total_size_exceeded_def\<close>)
  then show ?thesis
    using assms(6) by (simp add: upload_single_stored [OF assms(1,2,3)])
qed


lemma md_of_processed:
  "F \<noteq> [] \<Longrightarrow>
   extractFileMetadata [f\<lparr>hash := Some h, finalPath := Some F\<rparr>] =
     [\<lparr>md_originalName = originalname f, md_filename = filename f, md_path = F,
       md_size = fsize f, md_mimetype = mimetype f,
       md_extension = toLowerCase (extname (originalname f)), md_hash = h, md_isValid = True\<rparr>]"
  by (simp add: extractFileMetadata_def)

lemma magicBytes_get_ogg: "magicBytes_get ''audio/ogg'' = Undefined"
  by (simp add: magicBytes_get_def magicBytes_def Object_prototype_keys_def)

lemma magicBytes_get_msword: "magicBytes_get ''application/msword'' = Undefined"
  by (simp add: magicBytes_get_def magicBytes_def Object_prototype_keys_def)

lemma max_file_size: "foldr max (map (\<lambda>c. maxSize (snd c)) FILE_CONFIGS) 0 = 10 * 1024 * 1024"
  by (simp add: FILE_CONFIGS_def resumeConfig_def imageConfig_def audioConfig_def documentConfig_def)

lemma uploadMultiple_oversize:
  assumes "length (part_content p) > 10 * 1024 * 1024"
  shows "\<exists>e. uploadMultiple H fns m [p] w = (NextError e, fields_request [], w)"
proof -
  let ?opts = "\<lparr>storage_subdir = ''temp'', fileFilter = multiple_filter fns,
                  limit_fileSize = foldr max (map (\<lambda>c. maxSize (snd c)) FILE_CONFIGS) 0,
                  limit_files = sum_list (map field_maxCount fns)\<rparr>"
  let ?left = "map (\<lambda>fc. (field_name fc, field_maxCount fc)) fns"
  have cl: "cleanupTempFiles (fields_request []) w = w"
    by (simp add: cleanupTempFiles_def getAllFiles_def fields_request_def)
  have "\<exists>ue. multer_run ?opts [p] ?left [] w = (Some ue, [], w)"
  proof (cases "multiple_filter fns (incoming_file p)")
    case (Inl fe)
    then show ?thesis by (simp add: multer_abort_def Let_def)
  next
    case (Inr b)
    with multiple_filter_not_skip [of fns "incoming_file p"] have b: "b" by (cases b) auto
    with Inr assms show ?thesis by (simp add: multer_abort_def Let_def max_file_size)
  qed
  then obtain ue where "multer_run ?opts [p] ?left [] w = (Some ue, [], w)" ..
  then show ?thesis
    using cl by (simp add: uploadMultiple_def wrapMulter_error)
qed

lemma uploadMultiple_resume_accepts:
  assumes "length c \<le> 10 * 1024 * 1024" and "length c \<le> m"
  shows "fst (uploadMultiple H
          [\<lparr>field_name = ''resume'', field_maxCount = 1, field_type = ''resume''\<rparr>] m
          [\<lparr>part_fieldname = ''resume'', part_originalname = ''cv.doc'',
            part_mimetype = ''application/msword'', part_content = c, part_stamp = ''1_ab''\<rparr>]
          w) = Next"
proof -
  let ?p = "\<lparr>part_fieldname = ''resume'', part_originalname = ''cv.doc'',
            part_mimetype = ''application/msword'', part_content = c, part_stamp = ''1_ab''\<rparr>"
  let ?fns = "[\<lparr>field_name = ''resume'', field_maxCount = 1, field_type = ''resume''\<rparr>]"
  let ?opts = "\<lparr>storage_subdir = ''temp'', fileFilter = multiple_filter ?fns,
                  limit_fileSize = foldr max (map (\<lambda>c. maxSize (snd c)) FILE_CONFIGS) 0,
                  limit_files = sum_list (map field_maxCount ?fns)\<rparr>"
  let ?sf = "stored_file ''temp'' ?p"
  let ?w1 = "w\<lparr>disk := (disk w)(path ?sf \<mapsto> c)\<rparr>"
  have filt: "fileFilter ?opts (incoming_file ?p) = Inr True"
    by (simp add: multiple_filter_def FILE_CONFIGS_def resumeConfig_def filter_eval string_eval Let_def)
  have run: "multer_run ?opts [?p] [(''resume'', 1)] [] w = (None, [?sf], ?w1)"
    using multer_run_one_stored [of ?opts "[(''resume'', 1)]" ?p 0 w] filt assms(1)
    by (simp add: max_file_size)
  have sf: "path ?sf = ''uploads/temp/1_ab.doc''" "mimetype ?sf = ''application/msword''"
    "fsize ?sf = Some (length c)" "fieldname ?sf = ''resume''"
    by (simp_all add: stored_file_fields string_eval)
  have valid: "validateFileContent (disk ?w1) ?sf"
    by (simp add: validateFileContent_def sf magicBytes_get_msword)
  have loc: "final_location (?sf\<lparr>hash := Some (H c)\<rparr>) = ''uploads/resumes/'' @ H c @ ''.doc''"
    by (simp add: final_location_def final_subdir_def sf string_eval stored_file_fields)
  have guard: "\<not> total_size_exceeded (Some m) (fields_request [?sf])"
    using assms(2)
    by (simp add: total_size_exceeded_def fields_request_def calculateTotalSize_def
        add_size_def add_total_def sf)
  have "fst (wrapMulter H (Some m) None (fields_request [?sf]) ?w1) = Next"
    by (subst wrapMulter_one_accepted [where bytes = c and f = ?sf
          and F = "''uploads/resumes/'' @ H c @ ''.doc''"])
       (use valid loc guard in \<open>simp_all add: getAllFiles_fields_one sf\<close>)
  then show ?thesis
    using run by (simp add: uploadMultiple_def)
qed

text \<open>
  The antivirus middleware of the job application route reads \<^verbatim>\<open>file.path\<close>, which the
  upload middleware has already renamed or unlinked: every resume that \<^verbatim>\<open>uploadResume\<close>
  accepts is answered with 400 by \<^verbatim>\<open>antivirusScan\<close>.
\<close>

lemma scan_after_accepted_upload:
  assumes "createFileFilter resumeConfig (incoming_file p) = Inr True"
    and "part_fieldname p = ''resume''"
    and "length (part_content p) \<le> maxSize resumeConfig"
    and "validateFileContent [path (stored_file ''resumes'' p) \<mapsto> part_content p]
           (stored_file ''resumes'' p)"
    and "final_location ((stored_file ''resumes'' p)\<lparr>hash := Some (H (part_content p))\<rparr>)
           \<noteq> path (stored_file ''resumes'' p)"
    and "checkDiskSpace 2 statOk isW probe = Next"
  shows "fst (uploadResume H [p] w) = Next
         \<and> fst (jobApplicationRoute H [p] True bodyError statOk isW probe w) = Respond 400"
proof -
  let ?sf = "stored_file ''resumes'' p"
  let ?F = "final_location (?sf\<lparr>hash := Some (H (part_content p))\<rparr>)"
  let ?req = "(single_request [?sf])\<lparr>fileMetadata :=
               Some (extractFileMetadata
                 [?sf\<lparr>hash := Some (H (part_content p)), finalPath := Some ?F\<rparr>])\<rparr>"
  let ?w1 = "w\<lparr>hashed := hashed w @ [path ?sf],
              disk := ((disk w)(path ?sf := None))
                        (?F \<mapsto> (case disk w ?F of None \<Rightarrow> part_content p | Some old \<Rightarrow> old))\<rparr>"
  have up: "uploadResume H [p] w = (Next, ?req, ?w1)"
    unfolding uploadResume_def
    by (rule upload_single_accepted) (use assms(1-5) in simp_all)
  have gone: "disk ?w1 (path ?sf) = None"
    using assms(5) by simp
  have "getAllFiles ?req = [?sf]"
    by (simp add: getAllFiles_def single_request_def)
  then have "fst (antivirusScan ?req ?w1) = Respond 400"
    using gone by (simp add: antivirusScan_def performAntivirusScan_def)
  then obtain w2 where av: "antivirusScan ?req ?w1 = (Respond 400, w2)"
    by (cases "antivirusScan ?req ?w1") simp
  have "jobApplicationRoute H [p] True bodyError statOk isW probe w = (Respond 400, ?req, w2)"
    unfolding jobApplicationRoute_def up by (simp add: assms(6) av)
  then show ?thesis using up by simp
qed

section \<open>Content-addressed storage\<close>

text \<open>
  Claim C2, as stated, fails: the final name keeps the extension of the original name, so
  the same two bytes uploaded to the resume category as \<^verbatim>\<open>cv.doc\<close> and as \<^verbatim>\<open>cv.docx\<close>
  (same declared MIME type, both accepted) end in two files with two different final
  paths.
\<close>

theorem idempotent_storage_counterexample:
  "fst (uploadResume sha256_examples
          [\<lparr>part_fieldname = ''resume'', part_originalname = ''cv.doc'',
            part_mimetype = ''application/msword'', part_content = [0x68, 0x69],
            part_stamp = ''1_ab''\<rparr>]
          \<lparr>disk = empty_disk, hashed = []\<rparr>) = Next
   \<and> fst (uploadResume sha256_examples
          [\<lparr>part_fieldname = ''resume'', part_originalname = ''cv.docx'',
            part_mimetype = ''application/msword'', part_content = [0x68, 0x69],
            part_stamp = ''2_cd''\<rparr>]
          (snd (snd (uploadResume sha256_examples
             [\<lparr>part_fieldname = ''resume'', part_originalname = ''cv.doc'',
               part_mimetype = ''application/msword'', part_content = [0x68, 0x69],
               part_stamp = ''1_ab''\<rparr>]
             \<lparr>disk = empty_disk, hashed = []\<rparr>)))) = Next
   \<and> disk (snd (snd (uploadResume sha256_examples
          [\<lparr>part_fieldname = ''resume'', part_originalname = ''cv.docx'',
            part_mimetype = ''application/msword'', part_content = [0x68, 0x69],
            part_stamp = ''2_cd''\<rparr>]
          (snd (snd (uploadResume sha256_examples
             [\<lparr>part_fieldname = ''resume'', part_originalname = ''cv.doc'',
               part_mimetype = ''application/msword'', part_content = [0x68, 0x69],
               part_stamp = ''1_ab''\<rparr>]
             \<lparr>disk = empty_disk, hashed = []\<rparr>))))))
     = (empty_disk(''uploads/resumes/8f434346648f6b96df89dda901c5176b10a6d83961dd3c1ac88b59b2dc327aa4.doc'' \<mapsto> [0x68, 0x69], ''uploads/resumes/8f434346648f6b96df89dda901c5176b10a6d83961dd3c1ac88b59b2dc327aa4.docx'' \<mapsto> [0x68, 0x69]))"
proof -
  let ?H = sha256_examples
  let ?p = "\<lparr>part_fieldname = ''resume'', part_originalname = ''cv.doc'',
            part_mimetype = ''application/msword'', part_content = [0x68, 0x69 :: byte],
            part_stamp = ''1_ab''\<rparr>"
  let ?q = "\<lparr>part_fieldname = ''resume'', part_originalname = ''cv.docx'',
            part_mimetype = ''application/msword'', part_content = [0x68, 0x69 :: byte],
            part_stamp = ''2_cd''\<rparr>"
  let ?w = "\<lparr>disk = empty_disk, hashed = []\<rparr>"
  let ?sp = "stored_file ''resumes'' ?p"
  let ?sq = "stored_file ''resumes'' ?q"
  let ?w1 = "\<lparr>disk = (empty_disk(''uploads/resumes/8f434346648f6b96df89dda901c5176b10a6d83961dd3c1ac88b59b2dc327aa4.doc'' \<mapsto> [0x68, 0x69 :: byte])),
             hashed = [''uploads/resumes/1_ab.doc'']\<rparr>"
  have fp: "createFileFilter resumeConfig (incoming_file ?p) = Inr True"
    by (simp add: resumeConfig_def filter_eval string_eval Let_def)
  have fq: "createFileFilter resumeConfig (incoming_file ?q) = Inr True"
    by (simp add: resumeConfig_def filter_eval string_eval Let_def)
  have sp: "path ?sp = ''uploads/resumes/1_ab.doc''" "mimetype ?sp = ''application/msword''"
    "originalname ?sp = ''cv.doc''"
    by (simp_all add: stored_file_fields string_eval)
  have sq: "path ?sq = ''uploads/resumes/2_cd.docx''" "mimetype ?sq = ''application/msword''"
    "originalname ?sq = ''cv.docx''"
    by (simp_all add: stored_file_fields string_eval)
  have vp: "validateFileContent [path ?sp \<mapsto> part_content ?p] ?sp"
    by (simp add: validateFileContent_def sp magicBytes_get_msword)
  have vq: "validateFileContent [path ?sq \<mapsto> part_content ?q] ?sq"
    by (simp add: validateFileContent_def sq magicBytes_get_msword)
  have lp: "''uploads/resumes/8f434346648f6b96df89dda901c5176b10a6d83961dd3c1ac88b59b2dc327aa4.doc'' = final_location (?sp\<lparr>hash := Some (?H (part_content ?p))\<rparr>)"
    by (simp add: final_location_def final_subdir_def sp string_eval)
  have lq: "''uploads/resumes/8f434346648f6b96df89dda901c5176b10a6d83961dd3c1ac88b59b2dc327aa4.docx'' = final_location (?sq\<lparr>hash := Some (?H (part_content ?q))\<rparr>)"
    by (simp add: final_location_def final_subdir_def sq string_eval)
  have r1: "fst (uploadResume ?H [?p] ?w) = Next \<and> snd (snd (uploadResume ?H [?p] ?w)) = ?w1"
    using upload_single_accepted [where H = sha256_examples and p = ?p, OF fp _ _ vp lp,
        where field = "''resume''" and w = ?w]
    by (simp add: uploadResume_def resumeConfig_def sp)
  have r2: "fst (uploadResume ?H [?q] ?w1) = Next
      \<and> disk (snd (snd (uploadResume ?H [?q] ?w1)))
          = (empty_disk(''uploads/resumes/8f434346648f6b96df89dda901c5176b10a6d83961dd3c1ac88b59b2dc327aa4.doc'' \<mapsto> [0x68, 0x69], ''uploads/resumes/8f434346648f6b96df89dda901c5176b10a6d83961dd3c1ac88b59b2dc327aa4.docx'' \<mapsto> [0x68, 0x69]))"
    using upload_single_accepted [where H = sha256_examples and p = ?q, OF fq _ _ vq lq,
        where field = "''resume''" and w = ?w1]
    by (simp add: uploadResume_def resumeConfig_def sq empty_disk_def)
  show ?thesis using r1 r2 by simp
qed

text \<open>
  Claim C2, amended. The final location of an accepted file is the directory chosen by its
  MIME type joined with the content hash followed by the extension of its original name.
  For two requests that each carry one file, with byte-identical content, the same
  extension and the same directory, handled one after the other: both succeed with the
  same final path and the same hash; the first leaves at that path the file that was
  already there, or else its own content, renamed into place; the second changes nothing
  at that path and only deletes its temporary file. The disk ends with one file for the
  two uploads. (Temporary names differ from each other and from the final name, as the
  names \<^verbatim>\<open>timestamp_random.ext\<close> of \<^verbatim>\<open>createStorage\<close> do.)
\<close>

theorem idempotent_storage:
  assumes "getAllFiles reqf = [f]" and "getAllFiles reqg = [g]"
    and "\<not> total_size_exceeded m reqf" and "\<not> total_size_exceeded m reqg"
    and "disk w (path f) = Some bytes" and "disk w (path g) = Some bytes"
    and "path f \<noteq> path g"
    and "extname (originalname f) = extname (originalname g)"
    and "final_subdir (mimetype f) = final_subdir (mimetype g)"
    and "validateFileContent (disk w) f" and "validateFileContent (disk w) g"
    and "F = path_join (path_join uploadDir (final_subdir (mimetype f)))
               (H bytes @ extname (originalname f))"
    and "F \<noteq> path f" and "F \<noteq> path g"
  shows "\<exists>mf mg w1 w2.
           wrapMulter H m None reqf w = (Next, reqf\<lparr>fileMetadata := Some [mf]\<rparr>, w1)
         \<and> wrapMulter H m None reqg w1 = (Next, reqg\<lparr>fileMetadata := Some [mg]\<rparr>, w2)
         \<and> md_path mf = F \<and> md_path mg = F \<and> md_hash mf = H bytes \<and> md_hash mg = H bytes
         \<and> disk w1 = ((disk w)(path f := None))
                        (F \<mapsto> (case disk w F of None \<Rightarrow> bytes | Some old \<Rightarrow> old))
         \<and> disk w2 = (disk w1)(path g := None)"
proof -
  let ?w1 = "w\<lparr>hashed := hashed w @ [path f],
              disk := ((disk w)(path f := None))
                        (F \<mapsto> (case disk w F of None \<Rightarrow> bytes | Some old \<Rightarrow> old))\<rparr>"
  let ?w2 = "?w1\<lparr>hashed := hashed ?w1 @ [path g], disk := (disk ?w1)(path g := None)\<rparr>"
  have Ff: "F = final_location (f\<lparr>hash := Some (H bytes)\<rparr>)"
    using assms(12) by (simp add: final_location_def Let_def)
  have Fg: "F = final_location (g\<lparr>hash := Some (H bytes)\<rparr>)"
    using assms(12) assms(8,9) by (simp add: final_location_def Let_def)
  have Fne: "F \<noteq> []" using Ff final_location_nonempty by simp
  have first: "wrapMulter H m None reqf w =
      (Next, reqf\<lparr>fileMetadata :=
                  Some (extractFileMetadata [f\<lparr>hash := Some (H bytes), finalPath := Some F\<rparr>])\<rparr>, ?w1)"
    by (rule wrapMulter_one_accepted [where bytes = bytes and H = H])
       (use assms(1,3,5,10,13) Ff in simp_all)
  have g1: "disk ?w1 (path g) = Some bytes"
    using assms(6,7,14) by simp
  have v1: "validateFileContent (disk ?w1) g"
    using assms(11) validateFileContent_cong [of "disk ?w1" g "disk w"] g1 assms(6) by simp
  obtain x where x: "disk ?w1 F = Some x" by simp
  have idem: "((disk ?w1)(path g := None))(F \<mapsto> x) = (disk ?w1)(path g := None)"
    using x assms(14) by (intro fun_upd_idem) simp
  have second: "wrapMulter H m None reqg ?w1 =
      (Next, reqg\<lparr>fileMetadata :=
                  Some (extractFileMetadata [g\<lparr>hash := Some (H bytes), finalPath := Some F\<rparr>])\<rparr>,
       ?w1\<lparr>hashed := hashed ?w1 @ [path g],
           disk := ((disk ?w1)(path g := None))
                     (F \<mapsto> (case disk ?w1 F of None \<Rightarrow> bytes | Some old \<Rightarrow> old))\<rparr>)"
    by (rule wrapMulter_one_accepted [where bytes = bytes and H = H])
       (use assms(2,4,14) g1 v1 Fg in simp_all)
  have second': "wrapMulter H m None reqg ?w1 =
      (Next, reqg\<lparr>fileMetadata :=
                  Some (extractFileMetadata [g\<lparr>hash := Some (H bytes), finalPath := Some F\<rparr>])\<rparr>, ?w2)"
    unfolding second using x idem by simp
  let ?mf = "\<lparr>md_originalName = originalname f, md_filename = filename f, md_path = F,
       md_size = fsize f, md_mimetype = mimetype f,
       md_extension = toLowerCase (extname (originalname f)), md_hash = H bytes,
       md_isValid = True\<rparr>"
  let ?mg = "\<lparr>md_originalName = originalname g, md_filename = filename g, md_path = F,
       md_size = fsize g, md_mimetype = mimetype g,
       md_extension = toLowerCase (extname (originalname g)), md_hash = H bytes,
       md_isValid = True\<rparr>"
  have r1: "wrapMulter H m None reqf w = (Next, reqf\<lparr>fileMetadata := Some [?mf]\<rparr>, ?w1)"
    using first by (simp add: md_of_processed [OF Fne])
  have r2: "wrapMulter H m None reqg ?w1 = (Next, reqg\<lparr>fileMetadata := Some [?mg]\<rparr>, ?w2)"
    using second' by (simp add: md_of_processed [OF Fne])
  show ?thesis
    by (rule exI [of _ ?mf], rule exI [of _ ?mg], rule exI [of _ ?w1], rule exI [of _ ?w2])
       (simp add: r1 r2)
qed

theorem idempotent_storage_witness:
  "fst (wrapMulter sha256_examples None None
         \<lparr>req_file = Some \<lparr>fieldname = ''resume'', originalname = ''cv.pdf'',
             mimetype = ''application/pdf'', fsize = Some 5, path = ''uploads/resumes/1_ab.pdf'',
             filename = ''1_ab.pdf'', hash = None, finalPath = None\<rparr>,
           req_files = None, fileMetadata = None\<rparr>
         \<lparr>disk = (empty_disk(''uploads/resumes/1_ab.pdf'' \<mapsto> [0x25, 0x50, 0x44, 0x46, 0x2D],
                  ''uploads/resumes/2_cd.pdf'' \<mapsto> [0x25, 0x50, 0x44, 0x46, 0x2D])),
          hashed = []\<rparr>) = Next
   \<and> disk (snd (snd (wrapMulter sha256_examples None None
         \<lparr>req_file = Some \<lparr>fieldname = ''resume'', originalname = ''copy.pdf'',
             mimetype = ''application/pdf'', fsize = Some 5, path = ''uploads/resumes/2_cd.pdf'',
             filename = ''2_cd.pdf'', hash = None, finalPath = None\<rparr>,
           req_files = None, fileMetadata = None\<rparr>
         (snd (snd (wrapMulter sha256_examples None None
           \<lparr>req_file = Some \<lparr>fieldname = ''resume'', originalname = ''cv.pdf'',
               mimetype = ''application/pdf'', fsize = Some 5, path = ''uploads/resumes/1_ab.pdf'',
               filename = ''1_ab.pdf'', hash = None, finalPath = None\<rparr>,
             req_files = None, fileMetadata = None\<rparr>
           \<lparr>disk = (empty_disk(''uploads/resumes/1_ab.pdf'' \<mapsto> [0x25, 0x50, 0x44, 0x46, 0x2D],
                    ''uploads/resumes/2_cd.pdf'' \<mapsto> [0x25, 0x50, 0x44, 0x46, 0x2D])),
            hashed = []\<rparr>))))))
       ''uploads/resumes/38523c087796e5d5dd1cf9bad1fb026781a838dd9dd2cf8af58b9f6502a46778.pdf'' = Some [0x25, 0x50, 0x44, 0x46, 0x2D]"
proof -
  let ?H = sha256_examples
  let ?pdf = "[0x25, 0x50, 0x44, 0x46, 0x2D] :: byte list"
  let ?f = "\<lparr>fieldname = ''resume'', originalname = ''cv.pdf'',
             mimetype = ''application/pdf'', fsize = Some 5, path = ''uploads/resumes/1_ab.pdf'',
             filename = ''1_ab.pdf'', hash = None, finalPath = None\<rparr>"
  let ?g = "\<lparr>fieldname = ''resume'', originalname = ''copy.pdf'',
             mimetype = ''application/pdf'', fsize = Some 5, path = ''uploads/resumes/2_cd.pdf'',
             filename = ''2_cd.pdf'', hash = None, finalPath = None\<rparr>"
  let ?reqf = "\<lparr>req_file = Some ?f, req_files = None, fileMetadata = None\<rparr>"
  let ?reqg = "\<lparr>req_file = Some ?g, req_files = None, fileMetadata = None\<rparr>"
  let ?w = "\<lparr>disk = (empty_disk(''uploads/resumes/1_ab.pdf'' \<mapsto> ?pdf, ''uploads/resumes/2_cd.pdf'' \<mapsto> ?pdf)),
          hashed = []\<rparr>"
  have pdf: "magicBytes_get ''application/pdf'' = Own [[0x25, 0x50, 0x44, 0x46]]"
    by (simp add: magicBytes_get_def magicBytes_def)
  have vf: "validateFileContent (disk ?w) ?f"
    by (simp add: validateFileContent_def pdf readBuffer_def)
  have vg: "validateFileContent (disk ?w) ?g"
    by (simp add: validateFileContent_def pdf readBuffer_def)
  have ext: "extname ''cv.pdf'' = ''.pdf''" "extname ''copy.pdf'' = ''.pdf''"
    by (simp_all add: string_eval)
  have sub: "final_subdir ''application/pdf'' = ''resumes''"
    by (simp add: final_subdir_def string_eval)
  have F: "''uploads/resumes/38523c087796e5d5dd1cf9bad1fb026781a838dd9dd2cf8af58b9f6502a46778.pdf'' =
      path_join (path_join uploadDir (final_subdir (mimetype ?f))) (?H ?pdf @ extname (originalname ?f))"
    by (simp add: ext sub string_eval)
  have "\<exists>mf mg w1 w2.
           wrapMulter ?H None None ?reqf ?w = (Next, ?reqf\<lparr>fileMetadata := Some [mf]\<rparr>, w1)
         \<and> wrapMulter ?H None None ?reqg w1 = (Next, ?reqg\<lparr>fileMetadata := Some [mg]\<rparr>, w2)
         \<and> md_path mf = ''uploads/resumes/38523c087796e5d5dd1cf9bad1fb026781a838dd9dd2cf8af58b9f6502a46778.pdf'' \<and> md_path mg = ''uploads/resumes/38523c087796e5d5dd1cf9bad1fb026781a838dd9dd2cf8af58b9f6502a46778.pdf''
         \<and> md_hash mf = ?H ?pdf \<and> md_hash mg = ?H ?pdf
         \<and> disk w1 = ((disk ?w)(path ?f := None))
                        (''uploads/resumes/38523c087796e5d5dd1cf9bad1fb026781a838dd9dd2cf8af58b9f6502a46778.pdf'' \<mapsto>
                           (case disk ?w ''uploads/resumes/38523c087796e5d5dd1cf9bad1fb026781a838dd9dd2cf8af58b9f6502a46778.pdf'' of None \<Rightarrow> ?pdf | Some old \<Rightarrow> old))
         \<and> disk w2 = (disk w1)(path ?g := None)"
    by (rule idempotent_storage [where bytes = ?pdf and H = sha256_examples])
       (use vf vg in \<open>simp_all add: getAllFiles_def total_size_exceeded_def ext sub string_eval\<close>)
  then obtain mf mg w1 w2 where
    a: "wrapMulter ?H None None ?reqf ?w = (Next, ?reqf\<lparr>fileMetadata := Some [mf]\<rparr>, w1)"
    and b: "wrapMulter ?H None None ?reqg w1 = (Next, ?reqg\<lparr>fileMetadata := Some [mg]\<rparr>, w2)"
    and d1: "disk w1 = ((disk ?w)(path ?f := None))
                        (''uploads/resumes/38523c087796e5d5dd1cf9bad1fb026781a838dd9dd2cf8af58b9f6502a46778.pdf'' \<mapsto>
                           (case disk ?w ''uploads/resumes/38523c087796e5d5dd1cf9bad1fb026781a838dd9dd2cf8af58b9f6502a46778.pdf'' of None \<Rightarrow> ?pdf | Some old \<Rightarrow> old))"
    and d2: "disk w2 = (disk w1)(path ?g := None)"
    by blast
  have "disk w2 ''uploads/resumes/38523c087796e5d5dd1cf9bad1fb026781a838dd9dd2cf8af58b9f6502a46778.pdf'' = Some ?pdf"
    by (simp add: d2 d1)
  then show ?thesis using a b by simp
qed

section \<open>When the content hash is computed\<close>




section \<open>Empty files\<close>

text \<open>
  The check \<^verbatim>\<open>file.size === 0\<close> of \<^verbatim>\<open>performSecurityChecks\<close> reports a file whose size is
  known to be zero, but the file filter runs on the incoming file, whose size is not
  set, so the check never fires there.
\<close>

lemma empty_file_check:
  "(fsize f = Some 0 \<longrightarrow> EmptyFile \<in> set (errors (performSecurityChecks f)))
   \<and> EmptyFile \<notin> set (errors (performSecurityChecks (incoming_file p)))"
  by (simp add: performSecurityChecks_def incoming_file_def Let_def)

text \<open>
  Claim C5 does not hold of the code: a zero-byte upload \<^verbatim>\<open>voice.ogg\<close> declared
  \<^verbatim>\<open>audio/ogg\<close> passes \<^verbatim>\<open>uploadAudio\<close> and is stored in the audio directory.
\<close>

theorem empty_upload_accepted:
  "fst (uploadAudio sha256_examples
          [\<lparr>part_fieldname = ''audio'', part_originalname = ''voice.ogg'',
            part_mimetype = ''audio/ogg'', part_content = [], part_stamp = ''1_ab''\<rparr>]
          \<lparr>disk = empty_disk, hashed = []\<rparr>) = Next
   \<and> disk (snd (snd (uploadAudio sha256_examples
          [\<lparr>part_fieldname = ''audio'', part_originalname = ''voice.ogg'',
            part_mimetype = ''audio/ogg'', part_content = [], part_stamp = ''1_ab''\<rparr>]
          \<lparr>disk = empty_disk, hashed = []\<rparr>))) ''uploads/audio/e3b0c44298fc1c149afbf4c8996fb92427ae41e4649b934ca495991b7852b855.ogg'' = Some []"
proof -
  let ?p = "\<lparr>part_fieldname = ''audio'', part_originalname = ''voice.ogg'',
            part_mimetype = ''audio/ogg'', part_content = [] :: byte list, part_stamp = ''1_ab''\<rparr>"
  let ?w = "\<lparr>disk = empty_disk, hashed = []\<rparr>"
  let ?sf = "stored_file ''audio'' ?p"
  have filt: "createFileFilter audioConfig (incoming_file ?p) = Inr True"
    by (simp add: audioConfig_def filter_eval string_eval Let_def)
  have sf: "path ?sf = ''uploads/audio/1_ab.ogg''" "mimetype ?sf = ''audio/ogg''"
    "originalname ?sf = ''voice.ogg''"
    by (simp_all add: stored_file_fields string_eval)
  have valid: "validateFileContent [path ?sf \<mapsto> part_content ?p] ?sf"
    by (simp add: validateFileContent_def sf magicBytes_get_ogg)
  have loc: "''uploads/audio/e3b0c44298fc1c149afbf4c8996fb92427ae41e4649b934ca495991b7852b855.ogg'' = final_location (?sf\<lparr>hash := Some (sha256_examples (part_content ?p))\<rparr>)"
    by (simp add: final_location_def final_subdir_def sf string_eval)
  have "upload_single sha256_examples ''audio'' ''audio'' audioConfig [?p] ?w =
           (Next,
            (single_request [?sf])\<lparr>fileMetadata :=
               Some (extractFileMetadata
                 [?sf\<lparr>hash := Some (sha256_examples (part_content ?p)),
                      finalPath := Some ''uploads/audio/e3b0c44298fc1c149afbf4c8996fb92427ae41e4649b934ca495991b7852b855.ogg''\<rparr>])\<rparr>,
            ?w\<lparr>hashed := hashed ?w @ [path ?sf],
              disk := ((disk ?w)(path ?sf := None))
                        (''uploads/audio/e3b0c44298fc1c149afbf4c8996fb92427ae41e4649b934ca495991b7852b855.ogg'' \<mapsto>
                           (case disk ?w ''uploads/audio/e3b0c44298fc1c149afbf4c8996fb92427ae41e4649b934ca495991b7852b855.ogg'' of
                              None \<Rightarrow> part_content ?p | Some old \<Rightarrow> old))\<rparr>)"
    by (rule upload_single_accepted [where H = sha256_examples and p = ?p, OF filt _ _ valid loc])
       (simp_all add: audioConfig_def sf)
  then show ?thesis by (simp add: uploadAudio_def)
qed

section \<open>Size ceilings\<close>

text \<open>
  Claim C7, as stated, fails for \<^verbatim>\<open>uploadMultiple\<close>, whose only per-file limit is the
  largest ceiling of all categories: a resume of 6 MiB in a field of type \<^verbatim>\<open>resume\<close>
  (ceiling 5 MiB) is accepted.
\<close>

theorem category_size_ceiling_counterexample:
  "length (replicate (6 * 1024 * 1024) (0 :: byte)) > maxSize resumeConfig
   \<and> fst (uploadMultiple sha256_examples
          [\<lparr>field_name = ''resume'', field_maxCount = 1, field_type = ''resume''\<rparr>]
          (50 * 1024 * 1024)
          [\<lparr>part_fieldname = ''resume'', part_originalname = ''cv.doc'',
            part_mimetype = ''application/msword'',
            part_content = replicate (6 * 1024 * 1024) 0, part_stamp = ''1_ab''\<rparr>]
          \<lparr>disk = empty_disk, hashed = []\<rparr>) = Next"
proof -
  have "length (replicate (6 * 1024 * 1024) (0 :: byte)) > maxSize resumeConfig"
    by (simp add: resumeConfig_def)
  moreover have "length (replicate (6 * 1024 * 1024) (0 :: byte)) \<le> 10 * 1024 * 1024"
    "length (replicate (6 * 1024 * 1024) (0 :: byte)) \<le> 50 * 1024 * 1024"
    by simp_all
  ultimately show ?thesis
    using uploadMultiple_resume_accepts [of "replicate (6 * 1024 * 1024) (0 :: byte)"
        "50 * 1024 * 1024" sha256_examples "\<lparr>disk = empty_disk, hashed = []\<rparr>"]
    by blast
qed

text \<open>
  Claim C7, amended. In the single-file middlewares a file strictly larger than the
  ceiling of the category (resume 5 MiB, image 2 MiB, audio 10 MiB) is rejected, with
  the file-too-large error whenever it passed the type filter in the expected field,
  and the state is left as it was: nothing is stored and nothing is hashed. In
  \<^verbatim>\<open>uploadMultiple\<close> the same holds for a file larger than 10 MiB, whatever the category
  of its field.
\<close>

theorem single_upload_size_ceiling:
  "(length (part_content p) > 5 * 1024 * 1024 \<longrightarrow>
      (\<exists>e. uploadResume H [p] w = (NextError e, single_request [], w)
         \<and> (createFileFilter resumeConfig (incoming_file p) = Inr True
              \<and> part_fieldname p = ''resume'' \<longrightarrow> e = FileTooLarge)))
   \<and> (length (part_content p) > 2 * 1024 * 1024 \<longrightarrow>
      (\<exists>e. uploadImage H [p] w = (NextError e, single_request [], w)
         \<and> (createFileFilter imageConfig (incoming_file p) = Inr True
              \<and> part_fieldname p = ''image'' \<longrightarrow> e = FileTooLarge)))
   \<and> (length (part_content p) > 10 * 1024 * 1024 \<longrightarrow>
      (\<exists>e. uploadAudio H [p] w = (NextError e, single_request [], w)
         \<and> (createFileFilter audioConfig (incoming_file p) = Inr True
              \<and> part_fieldname p = ''audio'' \<longrightarrow> e = FileTooLarge)))
   \<and> (length (part_content p) > 10 * 1024 * 1024 \<longrightarrow>
      (\<exists>e. uploadMultiple H fns m [p] w = (NextError e, fields_request [], w)))"
proof (intro conjI impI)
  assume "length (part_content p) > 5 * 1024 * 1024"
  then have "length (part_content p) > maxSize resumeConfig" by (simp add: resumeConfig_def)
  then show "\<exists>e. uploadResume H [p] w = (NextError e, single_request [], w)
         \<and> (createFileFilter resumeConfig (incoming_file p) = Inr True
              \<and> part_fieldname p = ''resume'' \<longrightarrow> e = FileTooLarge)"
    unfolding uploadResume_def by (intro upload_single_aborted) simp
next
  assume "length (part_content p) > 2 * 1024 * 1024"
  then have "length (part_content p) > maxSize imageConfig" by (simp add: imageConfig_def)
  then show "\<exists>e. uploadImage H [p] w = (NextError e, single_request [], w)
         \<and> (createFileFilter imageConfig (incoming_file p) = Inr True
              \<and> part_fieldname p = ''image'' \<longrightarrow> e = FileTooLarge)"
    unfolding uploadImage_def by (intro upload_single_aborted) simp
next
  assume "length (part_content p) > 10 * 1024 * 1024"
  then have "length (part_content p) > maxSize audioConfig" by (simp add: audioConfig_def)
  then show "\<exists>e. uploadAudio H [p] w = (NextError e, single_request [], w)
         \<and> (createFileFilter audioConfig (incoming_file p) = Inr True
              \<and> part_fieldname p = ''audio'' \<longrightarrow> e = FileTooLarge)"
    unfolding uploadAudio_def by (intro upload_single_aborted) simp
next
  assume "length (part_content p) > 10 * 1024 * 1024"
  then show "\<exists>e. uploadMultiple H fns m [p] w = (NextError e, fields_request [], w)"
    by (rule uploadMultiple_oversize)
qed

theorem single_upload_size_ceiling_witness:
  "length (replicate (5 * 1024 * 1024 + 1) (0 :: byte)) > 5 * 1024 * 1024
   \<and> uploadResume sha256_examples
        [\<lparr>part_fieldname = ''resume'', part_originalname = ''cv.pdf'',
          part_mimetype = ''application/pdf'',
          part_content = replicate (5 * 1024 * 1024 + 1) 0, part_stamp = ''1_ab''\<rparr>]
        \<lparr>disk = empty_disk, hashed = []\<rparr>
     = (NextError FileTooLarge, single_request [], \<lparr>disk = empty_disk, hashed = []\<rparr>)"
proof -
  let ?p = "\<lparr>part_fieldname = ''resume'', part_originalname = ''cv.pdf'',
          part_mimetype = ''application/pdf'',
          part_content = replicate (5 * 1024 * 1024 + 1) (0 :: byte), part_stamp = ''1_ab''\<rparr>"
  let ?w = "\<lparr>disk = empty_disk, hashed = []\<rparr>"
  have len: "length (part_content ?p) > 5 * 1024 * 1024" by simp
  have filt: "createFileFilter resumeConfig (incoming_file ?p) = Inr True"
    by (simp add: resumeConfig_def filter_eval string_eval Let_def)
  from single_upload_size_ceiling [of ?p sha256_examples ?w] len filt
  have "uploadResume sha256_examples [?p] ?w = (NextError FileTooLarge, single_request [], ?w)"
    by auto
  with len show ?thesis by simp
qed

end
